theory Spec2Isabelle
  imports Complex_Main "HOL-Library.Word"
begin

unbundle bit_operations_syntax

section \<open>Numeric conventions\<close>

text \<open>
  The C sources compute with \<^verbatim>\<open>float\<close> and \<^verbatim>\<open>double\<close>. They are embedded as
  \<^typ>\<open>real\<close>: every arithmetic operation and every libm call (\<^verbatim>\<open>sqrtf\<close>,
  \<^verbatim>\<open>sinf\<close>, \<^verbatim>\<open>cosf\<close>, \<^verbatim>\<open>atan2f\<close>, \<^verbatim>\<open>asinf\<close>, \<^verbatim>\<open>floorf\<close>) is the exact
  mathematical one, without rounding, NaN or infinities. The constant \<^verbatim>\<open>M_PI\<close> is kept
  as the decimal literal the sources define, which is a rational number slightly below
  \<open>\<pi>\<close>. C \<^verbatim>\<open>int\<close> is embedded as \<^typ>\<open>int\<close>; the loops below stay far from its
  range for the inputs considered.
\<close>

definition M_PI :: real where
  "M_PI = 3.14159265358979323846"

text \<open>The cast \<^verbatim>\<open>(int)f\<close> of a floating value truncates toward zero.\<close>

definition c_int :: "real \<Rightarrow> int" where
  "c_int f = (if 0 \<le> f then \<lfloor>f\<rfloor> else \<lceil>f\<rceil>)"

text \<open>
  The libm function \<^verbatim>\<open>atan2f(y, x)\<close>: the angle of the point \<open>(x, y)\<close> in
  \<open>(-\<pi>, \<pi>]\<close>, with \<^verbatim>\<open>atan2f(0, 0) = 0\<close>.
\<close>

definition atan2f :: "real \<Rightarrow> real \<Rightarrow> real" where
  "atan2f y x =
     (if 0 < x then arctan (y / x)
      else if x < 0 then (if 0 \<le> y then arctan (y / x) + pi else arctan (y / x) - pi)
      else if 0 < y then pi / 2
      else if y < 0 then - (pi / 2)
      else 0)"

text \<open>A counted loop \<^verbatim>\<open>for (int i = lo; i <= hi; i++) body\<close> over a state.\<close>

definition for_loop :: "int \<Rightarrow> int \<Rightarrow> (int \<Rightarrow> 's \<Rightarrow> 's) \<Rightarrow> 's \<Rightarrow> 's" where
  "for_loop lo hi body s = fold body [lo..hi] s"


section \<open>Framebuffer\<close>

text \<open>
  Modelled from the spec: \<^verbatim>\<open>framebuffer_t\<close> and \<^verbatim>\<open>framebuffer_blend_pixel\<close> are declared
  in \<^verbatim>\<open>core/framebuffer.h\<close>, which is not among the sources. The specification gives
  the data (a mutable array of packed 32-bit colours with a width and a height, row-major,
  byte order alpha, blue, green, red from the most significant byte) and the contract
  (over-compositing \<open>out = src\<cdot>srcA + dst\<cdot>(1 - srcA)\<close> per channel, alpha similarly; no
  effect outside \<open>[0,width) \<times> [0,height)\<close>). The channels are taken as integers in
  \<open>0..255\<close> and the quotient by 255 is rounded down.
\<close>

record framebuffer =
  pixels :: "32 word list"
  width :: int
  height :: int

definition color_channel :: "32 word \<Rightarrow> nat \<Rightarrow> nat" where
  "color_channel c k = unat (drop_bit (8 * k) c AND 0xFF)"

definition pack_color :: "nat \<Rightarrow> nat \<Rightarrow> nat \<Rightarrow> nat \<Rightarrow> 32 word" where
  "pack_color a b g r =
     push_bit 24 (of_nat a) OR push_bit 16 (of_nat b) OR push_bit 8 (of_nat g) OR of_nat r"

definition blend_channel :: "nat \<Rightarrow> nat \<Rightarrow> nat \<Rightarrow> nat" where
  "blend_channel src dst src_a = (src * src_a + dst * (255 - src_a)) div 255"

definition blend_over :: "32 word \<Rightarrow> 32 word \<Rightarrow> 32 word" where
  "blend_over dst src =
     (let src_a = color_channel src 3 in
      pack_color (blend_channel (color_channel src 3) (color_channel dst 3) src_a)
                 (blend_channel (color_channel src 2) (color_channel dst 2) src_a)
                 (blend_channel (color_channel src 1) (color_channel dst 1) src_a)
                 (blend_channel (color_channel src 0) (color_channel dst 0) src_a))"

definition framebuffer_blend_pixel :: "framebuffer \<Rightarrow> int \<Rightarrow> int \<Rightarrow> 32 word \<Rightarrow> framebuffer" where
  "framebuffer_blend_pixel fb x y color =
     (if x < 0 \<or> width fb \<le> x \<or> y < 0 \<or> height fb \<le> y then fb
      else let idx = nat (y * width fb + x)
           in fb\<lparr>pixels := (pixels fb)[idx := blend_over (pixels fb ! idx) color]\<rparr>)"


section \<open>Primitive rasterizer\<close>

text \<open>\<^verbatim>\<open>draw_pixel\<close> forwards to the framebuffer's bounds-checked blend.\<close>

definition draw_pixel :: "framebuffer \<Rightarrow> int \<Rightarrow> int \<Rightarrow> 32 word \<Rightarrow> framebuffer" where
  "draw_pixel fb x y color = framebuffer_blend_pixel fb x y color"

definition draw_filled_circle :: "framebuffer \<Rightarrow> int \<Rightarrow> int \<Rightarrow> real \<Rightarrow> 32 word \<Rightarrow> framebuffer" where
  "draw_filled_circle fb cx cy radius color =
     (let r = c_int radius in
      for_loop (- r) r (\<lambda>y.
        for_loop (- r) r (\<lambda>x fb'.
          if x * x + y * y \<le> r * r then draw_pixel fb' (cx + x) (cy + y) color else fb')) fb)"

definition draw_circle_outline ::
  "framebuffer \<Rightarrow> int \<Rightarrow> int \<Rightarrow> real \<Rightarrow> 32 word \<Rightarrow> real \<Rightarrow> framebuffer" where
  "draw_circle_outline fb cx cy radius color thickness =
     (let r_outer = c_int (radius + thickness / 2);
          r_inner0 = c_int (radius - thickness / 2);
          r_inner = (if r_inner0 < 0 then 0 else r_inner0)
      in for_loop (- r_outer) r_outer (\<lambda>y.
           for_loop (- r_outer) r_outer (\<lambda>x fb'.
             let dist_sq = x * x + y * y in
             if r_inner * r_inner \<le> dist_sq \<and> dist_sq \<le> r_outer * r_outer
             then draw_pixel fb' (cx + x) (cy + y) color else fb')) fb)"

definition deg_to_radf :: "real \<Rightarrow> real" where
  "deg_to_radf degrees = degrees * (M_PI / 180)"

definition compass_to_math_rad :: "real \<Rightarrow> real" where
  "compass_to_math_rad compass_deg = deg_to_radf (90 - compass_deg)"

text \<open>
  The two normalisation loops of the wedge routines:
  \<^verbatim>\<open>while (a < 0) a += 2.0f * (float)M_PI;\<close> and
  \<^verbatim>\<open>while (a >= 2.0f * (float)M_PI) a -= 2.0f * (float)M_PI;\<close>.
\<close>

function add_turns :: "real \<Rightarrow> real" where
  "add_turns a = (if a < 0 then add_turns (a + 2 * M_PI) else a)"
  by pat_completeness auto
termination
proof (relation "measure (\<lambda>a. nat \<lceil>- a / (2 * M_PI)\<rceil>)")
  show "wf (measure (\<lambda>a. nat \<lceil>- a / (2 * M_PI)\<rceil>))" by simp
next
  fix a :: real
  assume neg: "a < 0"
  have pos: "0 < 2 * M_PI" by (simp add: M_PI_def)
  have "- (a + 2 * M_PI) / (2 * M_PI) = - a / (2 * M_PI) - 1"
    using pos by (simp add: field_simps)
  then have eq: "\<lceil>- (a + 2 * M_PI) / (2 * M_PI)\<rceil> = \<lceil>- a / (2 * M_PI)\<rceil> - 1"
    by simp
  have "a / (2 * M_PI) < 0" using neg pos by (rule divide_neg_pos)
  then have "0 < - a / (2 * M_PI)" by simp
  then have "0 < \<lceil>- a / (2 * M_PI)\<rceil>" by simp
  with eq have "nat \<lceil>- (a + 2 * M_PI) / (2 * M_PI)\<rceil> < nat \<lceil>- a / (2 * M_PI)\<rceil>"
    by linarith
  then show "(a + 2 * M_PI, a) \<in> measure (\<lambda>a. nat \<lceil>- a / (2 * M_PI)\<rceil>)"
    unfolding in_measure .
qed

function sub_turns :: "real \<Rightarrow> real" where
  "sub_turns a = (if 2 * M_PI \<le> a then sub_turns (a - 2 * M_PI) else a)"
  by pat_completeness auto
termination
proof (relation "measure (\<lambda>a. nat \<lceil>a / (2 * M_PI)\<rceil>)")
  show "wf (measure (\<lambda>a. nat \<lceil>a / (2 * M_PI)\<rceil>))" by simp
next
  fix a :: real
  assume big: "2 * M_PI \<le> a"
  have pos: "0 < 2 * M_PI" by (simp add: M_PI_def)
  have "(a - 2 * M_PI) / (2 * M_PI) = a / (2 * M_PI) - 1"
    using pos by (simp add: field_simps)
  then have eq: "\<lceil>(a - 2 * M_PI) / (2 * M_PI)\<rceil> = \<lceil>a / (2 * M_PI)\<rceil> - 1"
    by simp
  have "0 < a" using big pos by linarith
  then have "0 < a / (2 * M_PI)" using pos by (rule divide_pos_pos)
  then have "0 < \<lceil>a / (2 * M_PI)\<rceil>" by simp
  with eq have "nat \<lceil>(a - 2 * M_PI) / (2 * M_PI)\<rceil> < nat \<lceil>a / (2 * M_PI)\<rceil>"
    by linarith
  then show "(a - 2 * M_PI, a) \<in> measure (\<lambda>a. nat \<lceil>a / (2 * M_PI)\<rceil>)"
    unfolding in_measure .
qed

declare add_turns.simps [simp del] sub_turns.simps [simp del]

definition wedge_pixel_angle :: "int \<Rightarrow> int \<Rightarrow> real" where
  "wedge_pixel_angle x y =
     (let pixel_angle = atan2f (real_of_int (- y)) (real_of_int x)
      in if pixel_angle < 0 then pixel_angle + 2 * M_PI else pixel_angle)"

definition in_wedge :: "real \<Rightarrow> real \<Rightarrow> real \<Rightarrow> bool" where
  "in_wedge start_rad end_rad pixel_angle =
     (let wraps = (end_rad < start_rad) in
      if wraps then start_rad \<le> pixel_angle \<or> pixel_angle \<le> end_rad
      else end_rad \<le> pixel_angle \<and> pixel_angle \<le> start_rad)"

definition draw_wedge_filled ::
  "framebuffer \<Rightarrow> int \<Rightarrow> int \<Rightarrow> real \<Rightarrow> real \<Rightarrow> real \<Rightarrow> 32 word \<Rightarrow> framebuffer" where
  "draw_wedge_filled fb cx cy radius start_angle_deg end_angle_deg color =
     (let (start_deg, end_deg) =
            (if end_angle_deg < start_angle_deg then (end_angle_deg, start_angle_deg)
             else (start_angle_deg, end_angle_deg));
          start_rad = sub_turns (add_turns (compass_to_math_rad start_deg));
          end_rad = sub_turns (add_turns (compass_to_math_rad end_deg));
          r = c_int radius
      in for_loop (- r) r (\<lambda>y.
           for_loop (- r) r (\<lambda>x fb'.
             if radius * radius < real_of_int (x * x + y * y) then fb'
             else if in_wedge start_rad end_rad (wedge_pixel_angle x y)
                  then draw_pixel fb' (cx + x) (cy + y) color else fb')) fb)"

section \<open>Vectors and the sphere lookup table\<close>

record vec3 =
  vec_x :: real
  vec_y :: real
  vec_z :: real

record vec2 =
  uv_u :: real
  uv_v :: real

definition vec3_new :: "real \<Rightarrow> real \<Rightarrow> real \<Rightarrow> vec3" where
  "vec3_new x y z = \<lparr>vec_x = x, vec_y = y, vec_z = z\<rparr>"

definition vec3_dot :: "vec3 \<Rightarrow> vec3 \<Rightarrow> real" where
  "vec3_dot a b = vec_x a * vec_x b + vec_y a * vec_y b + vec_z a * vec_z b"

definition vec3_length :: "vec3 \<Rightarrow> real" where
  "vec3_length v = sqrt (vec3_dot v v)"

definition vec3_normalize :: "vec3 \<Rightarrow> vec3" where
  "vec3_normalize v =
     (let len = vec3_length v in
      if 0.0001 < len
      then \<lparr>vec_x = vec_x v / len, vec_y = vec_y v / len, vec_z = vec_z v / len\<rparr>
      else v)"

record navball_lut_entry =
  sphere_point :: vec3
  valid :: bool

record navball_lut =
  entries :: "navball_lut_entry list"
  lut_size :: int
  total_pixels :: int
  lut_radius :: real

text \<open>The all-zero entry that \<^verbatim>\<open>calloc\<close> leaves in every slot.\<close>

definition zero_entry :: navball_lut_entry where
  "zero_entry = \<lparr>sphere_point = vec3_new 0 0 0, valid = False\<rparr>"

text \<open>The body of the two nested loops of \<^verbatim>\<open>navball_lut_create\<close> at pixel \<open>(x, y)\<close>.\<close>

definition lut_fill_entry ::
  "int \<Rightarrow> real \<Rightarrow> int \<Rightarrow> int \<Rightarrow> navball_lut_entry list \<Rightarrow> navball_lut_entry list" where
  "lut_fill_entry size_px radius y x es =
     (let idx = nat (y * size_px + x);
          sx = real_of_int x - radius;
          sy = real_of_int y - radius;
          dist_sq = sx * sx + sy * sy;
          radius_sq = radius * radius
      in if dist_sq \<le> radius_sq
         then let sz = sqrt (radius_sq - dist_sq);
                  point = vec3_normalize (vec3_new sx sy sz)
              in es[idx := (es ! idx)\<lparr>sphere_point := point, valid := True\<rparr>]
         else es[idx := (es ! idx)\<lparr>valid := False\<rparr>])"

text \<open>
  \<^verbatim>\<open>navball_lut_create\<close>. What the allocator returns is an input of the model:
  \<^verbatim>\<open>malloc\<close> gives \<^verbatim>\<open>NULL\<close> (\<open>None\<close>) or a table header with arbitrary contents,
  \<^verbatim>\<open>calloc\<close> gives \<^verbatim>\<open>NULL\<close> (\<open>calloc_ok\<close> false) or an array of zero entries. A
  failed allocation makes the routine return \<^verbatim>\<open>NULL\<close>, here \<open>None\<close>.
\<close>

definition navball_lut_create :: "navball_lut option \<Rightarrow> bool \<Rightarrow> int \<Rightarrow> navball_lut option" where
  "navball_lut_create malloc_result calloc_ok size_px =
     (case malloc_result of None \<Rightarrow> None
      | Some lut0 \<Rightarrow>
        let lut1 = lut0\<lparr>lut_size := size_px, total_pixels := size_px * size_px,
                         lut_radius := real_of_int size_px / 2\<rparr>
        in if \<not> calloc_ok then None
           else
             let lut2 = lut1\<lparr>entries := replicate (nat (total_pixels lut1)) zero_entry\<rparr>
             in Some (lut2\<lparr>entries :=
                        for_loop 0 (size_px - 1) (\<lambda>y.
                          for_loop 0 (size_px - 1) (\<lambda>x.
                            lut_fill_entry size_px (lut_radius lut2) y x))
                          (entries lut2)\<rparr>))"


section \<open>Equirectangular projection and texture sampling\<close>

definition sphere_to_uv :: "vec3 \<Rightarrow> vec2" where
  "sphere_to_uv point0 =
     (let point = vec3_normalize point0;
          theta = atan2f (vec_x point) (vec_z point);
          phi = arcsin (vec_y point)
      in \<lparr>uv_u = theta / (2 * M_PI) + 0.5, uv_v = phi / M_PI + 0.5\<rparr>)"

text \<open>A texture: RGBA bytes (\<^verbatim>\<open>NULL\<close> data is \<open>None\<close>), width and height.\<close>

record texture =
  tex_data :: "8 word list option"
  tex_width :: int
  tex_height :: int

text \<open>
  The first step of \<^verbatim>\<open>texture_sample\<close>: \<^verbatim>\<open>u = u - floorf(u)\<close>. Over the reals
  the difference is below 1. In single precision it rounds to exactly \<^verbatim>\<open>1.0f\<close> for a
  tiny negative \<open>u\<close>, which the \<^verbatim>\<open>fmodf\<close> that follows folds back to 0 ("handles
  exactly 1.0 case"); nothing below is stated about the wrapped value.
\<close>

definition wrap_unit :: "real \<Rightarrow> real" where
  "wrap_unit u = u - real_of_int \<lfloor>u\<rfloor>"

text \<open>The libm function \<^verbatim>\<open>fmodf\<close>: the remainder of the quotient truncated toward zero.\<close>

definition fmodf :: "real \<Rightarrow> real \<Rightarrow> real" where
  "fmodf a b = a - real_of_int (c_int (a / b)) * b"

text \<open>The cast of a floating value to \<^verbatim>\<open>uint8_t\<close>.\<close>

definition c_uint8 :: "real \<Rightarrow> 8 word" where
  "c_uint8 f = word_of_int (c_int f)"

definition bilinear :: "real \<Rightarrow> real \<Rightarrow> 8 word \<Rightarrow> 8 word \<Rightarrow> 8 word \<Rightarrow> 8 word \<Rightarrow> 8 word" where
  "bilinear tx ty p00 p10 p01 p11 =
     c_uint8 ((1 - tx) * (1 - ty) * real (unat p00) + tx * (1 - ty) * real (unat p10)
              + (1 - tx) * ty * real (unat p01) + tx * ty * real (unat p11))"

definition assemble_rgba :: "8 word \<Rightarrow> 8 word \<Rightarrow> 8 word \<Rightarrow> 8 word \<Rightarrow> 32 word" where
  "assemble_rgba a b g r =
     push_bit 24 (ucast a) OR push_bit 16 (ucast b) OR push_bit 8 (ucast g) OR ucast r"

definition texture_sample :: "texture option \<Rightarrow> real \<Rightarrow> real \<Rightarrow> 32 word" where
  "texture_sample tex u0 v0 =
     (case tex of None \<Rightarrow> 0xFF000000
      | Some t \<Rightarrow>
        (case tex_data t of None \<Rightarrow> 0xFF000000
         | Some bytes \<Rightarrow>
           let u = wrap_unit u0;
               v = wrap_unit v0;
               fx = fmodf (u * real_of_int (tex_width t)) (real_of_int (tex_width t));
               fy = fmodf (v * real_of_int (tex_height t)) (real_of_int (tex_height t));
               x0 = c_int fx;
               y0 = c_int fy;
               x1 = (x0 + 1) mod tex_width t;
               y1 = (y0 + 1) mod tex_height t;
               tx = fx - real_of_int x0;
               ty = fy - real_of_int y0;
               p00 = nat ((y0 * tex_width t + x0) * 4);
               p10 = nat ((y0 * tex_width t + x1) * 4);
               p01 = nat ((y1 * tex_width t + x0) * 4);
               p11 = nat ((y1 * tex_width t + x1) * 4);
               ch = (\<lambda>k. bilinear tx ty (bytes ! (p00 + k)) (bytes ! (p10 + k))
                                       (bytes ! (p01 + k)) (bytes ! (p11 + k)))
           in assemble_rgba (ch 3) (ch 2) (ch 1) (ch 0)))"


section \<open>Rotation from platform attitude\<close>

text \<open>
  Modelled from the spec: \<^verbatim>\<open>glm_euler_yxz_quat\<close>, \<^verbatim>\<open>glm_quat_mat3\<close> and
  \<^verbatim>\<open>glm_quat_mat4\<close> belong to the cglm library, which is not among the sources. The
  specification names what they compute: the fixed YXZ intrinsic composition of the three
  angles into a quaternion, and the rotation matrix of that quaternion. The quaternion is
  \<open>(x, y, z, w)\<close>; \<open>angles\<close> is (pitch about x, roll about y, yaw about z); the
  matrices are indexed column first, as cglm stores them.
\<close>

type_synonym versor = "real \<times> real \<times> real \<times> real"

definition glm_euler_yxz_quat :: "real \<times> real \<times> real \<Rightarrow> versor" where
  "glm_euler_yxz_quat angles =
     (case angles of (a0, a1, a2) \<Rightarrow>
        let xs = sin (a0 * 0.5); xc = cos (a0 * 0.5);
            ys = sin (a1 * 0.5); yc = cos (a1 * 0.5);
            zs = sin (a2 * 0.5); zc = cos (a2 * 0.5)
        in (xc * ys * zs + xs * yc * zc,
            xc * ys * zc - xs * yc * zs,
            xc * yc * zs - xs * ys * zc,
            xc * yc * zc + xs * ys * zs))"

definition glm_quat_mat3 :: "versor \<Rightarrow> real list list" where
  "glm_quat_mat3 q =
     (case q of (x, y, z, w) \<Rightarrow>
        let norm = sqrt (x * x + y * y + z * z + w * w);
            s = (if 0 < norm then 2 / norm else 0);
            xx = s * x * x; xy = s * x * y; wx = s * w * x;
            yy = s * y * y; yz = s * y * z; wy = s * w * y;
            zz = s * z * z; xz = s * x * z; wz = s * w * z
        in [[1 - yy - zz, xy + wz, xz - wy],
            [xy - wz, 1 - xx - zz, yz + wx],
            [xz + wy, yz - wx, 1 - xx - yy]])"

definition glm_quat_mat4 :: "versor \<Rightarrow> real list list" where
  "glm_quat_mat4 q =
     (case glm_quat_mat3 q of
        [c0, c1, c2] \<Rightarrow> [c0 @ [0], c1 @ [0], c2 @ [0], [0, 0, 0, 1]]
      | _ \<Rightarrow> [])"


section \<open>Celestial coordinate engine\<close>

definition DEG_TO_RAD :: "real \<Rightarrow> real" where
  "DEG_TO_RAD deg = deg * M_PI / 180"

definition horizontal_to_vector :: "real \<Rightarrow> real \<Rightarrow> vec3" where
  "horizontal_to_vector azimuth altitude =
     (let az_rad = DEG_TO_RAD azimuth;
          alt_rad = DEG_TO_RAD altitude;
          cos_alt = cos alt_rad
      in \<lparr>vec_x = cos_alt * sin az_rad, vec_y = sin alt_rad, vec_z = cos_alt * cos az_rad\<rparr>)"

text \<open>
  \<^verbatim>\<open>create_rotation_matrix\<close>: azimuth goes to the roll axis and bank to the yaw axis;
  the nine entries are read from the cglm matrix as \<^verbatim>\<open>cglm_mat3[i / 3][i % 3]\<close>.
\<close>

definition create_rotation_matrix :: "real \<Rightarrow> real \<Rightarrow> real \<Rightarrow> real list" where
  "create_rotation_matrix azimuth elevation bank =
     (let pitch_rad = DEG_TO_RAD elevation;
          roll_rad = DEG_TO_RAD azimuth;
          yaw_rad = DEG_TO_RAD bank;
          cglm_mat3 = glm_quat_mat3 (glm_euler_yxz_quat (pitch_rad, roll_rad, yaw_rad))
      in map (\<lambda>i. cglm_mat3 ! (i div 3) ! (i mod 3)) [0..<9])"

definition mat3_mul_vec3 :: "real list \<Rightarrow> vec3 \<Rightarrow> vec3" where
  "mat3_mul_vec3 m v =
     \<lparr>vec_x = m ! 0 * vec_x v + m ! 1 * vec_y v + m ! 2 * vec_z v,
      vec_y = m ! 3 * vec_x v + m ! 4 * vec_y v + m ! 5 * vec_z v,
      vec_z = m ! 6 * vec_x v + m ! 7 * vec_y v + m ! 8 * vec_z v\<rparr>"

text \<open>
  \<^verbatim>\<open>celestial_to_navball_coords\<close> returns \<^verbatim>\<open>is_front\<close> and writes the two screen
  coordinates through its pointer arguments; the model returns the triple
  \<open>(is_front, screen_x, screen_y)\<close>.
\<close>

definition celestial_to_navball_coords ::
  "real \<Rightarrow> real \<Rightarrow> real \<Rightarrow> real \<Rightarrow> real \<Rightarrow> int \<Rightarrow> int \<Rightarrow> int \<Rightarrow> bool \<times> int \<times> int" where
  "celestial_to_navball_coords azimuth altitude platform_azimuth platform_elevation
       platform_bank navball_center_x navball_center_y navball_radius =
     (let celestial_vec = horizontal_to_vector azimuth altitude;
          rotation = create_rotation_matrix platform_azimuth platform_elevation platform_bank;
          rotated = mat3_mul_vec3 rotation celestial_vec;
          is_front = (0 < vec_z rotated);
          screen_x = navball_center_x + c_int (vec_x rotated * real_of_int navball_radius);
          screen_y = navball_center_y - c_int (vec_y rotated * real_of_int navball_radius)
      in (is_front, screen_x, screen_y))"


section \<open>Orientation sphere renderer\<close>

text \<open>
  What \<^verbatim>\<open>navball_render\<close> reads from the telemetry record, from the context and from
  collaborators that are not among the sources. The SVG rasteriser and the astronomy
  computation are inputs of the model (\<open>navball_services\<close>); an SVG resource is only
  inspected for whether its image pointer is set. The pixel array that
  \<^verbatim>\<open>ctx->framebuffer\<close> points to is passed and returned separately from the context,
  so that it exists also when the context pointer is \<^verbatim>\<open>NULL\<close>.
\<close>

typedecl nsvg_image

record svg_resource =
  svg_image :: "nsvg_image option"

record space_time =
  st_azimuth :: real
  st_elevation :: real
  st_bank :: real
  st_latitude :: real
  st_longitude :: real
  st_altitude :: real
  st_timestamp :: int

record rec_osd_t =
  heat_osd_enabled :: bool
  heat_crosshair_offset_horizontal :: int
  heat_crosshair_offset_vertical :: int
  day_crosshair_offset_horizontal :: int
  day_crosshair_offset_vertical :: int

record rotary_t =
  azimuth_speed :: real
  elevation_speed :: real
  is_moving :: bool

text \<open>The compass, time and camera messages of the telemetry record, which the radar
  compass reads through the accessors of \<^verbatim>\<open>osd_state.c\<close>.\<close>

record compass_t =
  compass_azimuth :: real
  compass_elevation :: real
  compass_bank :: real

record time_t =
  time_timestamp :: int

record camera_t =
  horizontal_fov_degrees :: real

record osd_state =
  has_actual_space_time :: bool
  actual_space_time :: space_time
  rec_osd :: rec_osd_t
  has_rotary :: bool
  rotary :: rotary_t
  has_compass :: bool
  compass :: compass_t
  has_time :: bool
  time :: time_t
  has_camera_day :: bool
  camera_day :: camera_t
  has_camera_heat :: bool
  camera_heat :: camera_t

record observer_location =
  obs_latitude :: real
  obs_longitude :: real
  obs_altitude :: real

record celestial_position =
  cel_azimuth :: real
  cel_altitude :: real
  cel_valid :: bool

record celestial_positions =
  sun :: celestial_position
  moon :: celestial_position

record navball_services =
  svg_render :: "framebuffer \<Rightarrow> svg_resource \<Rightarrow> int \<Rightarrow> int \<Rightarrow> int \<Rightarrow> int \<Rightarrow> framebuffer"
  svg_render_with_alpha ::
    "framebuffer \<Rightarrow> svg_resource \<Rightarrow> int \<Rightarrow> int \<Rightarrow> int \<Rightarrow> int \<Rightarrow> real \<Rightarrow> framebuffer"
  celestial_calculate :: "int \<Rightarrow> observer_location \<Rightarrow> celestial_positions"

record navball_context =
  ctx_width :: int
  ctx_height :: int
  navball_enabled :: bool
  navball_x :: int
  navball_y :: int
  navball_size :: int
  navball_texture :: "texture option"
  navball_lut :: "navball_lut option"
  navball_show_level_marker :: bool
  navball_show_center_indicator :: bool
  navball_center_indicator_scale :: real
  navball_center_indicator_svg :: svg_resource
  celestial_enabled :: bool
  celestial_show_sun :: bool
  celestial_show_moon :: bool
  celestial_indicator_scale :: real
  celestial_visibility_threshold :: real
  celestial_sun_front_svg :: svg_resource
  celestial_sun_back_svg :: svg_resource
  celestial_moon_front_svg :: svg_resource
  celestial_moon_back_svg :: svg_resource

text \<open>C integer division truncates toward zero.\<close>

definition c_div :: "int \<Rightarrow> int \<Rightarrow> int" where
  "c_div a b = sgn a * sgn b * (\<bar>a\<bar> div \<bar>b\<bar>)"

text \<open>
  Modelled from the spec: \<^verbatim>\<open>framebuffer_init\<close> (\<^verbatim>\<open>core/framebuffer.h\<close>, not among the
  sources) makes a framebuffer view of a pixel array with the given width and height.
\<close>

definition framebuffer_init :: "32 word list \<Rightarrow> int \<Rightarrow> int \<Rightarrow> framebuffer" where
  "framebuffer_init buffer w h = \<lparr>pixels = buffer, width = w, height = h\<rparr>"

text \<open>The local 4x4 matrix is the sixteen cglm entries in storage order.\<close>

definition mat4_mul_vec3 :: "real list \<Rightarrow> vec3 \<Rightarrow> vec3" where
  "mat4_mul_vec3 m v =
     \<lparr>vec_x = m ! 0 * vec_x v + m ! 4 * vec_y v + m ! 8 * vec_z v,
      vec_y = m ! 1 * vec_x v + m ! 5 * vec_y v + m ! 9 * vec_z v,
      vec_z = m ! 2 * vec_x v + m ! 6 * vec_y v + m ! 10 * vec_z v\<rparr>"

definition navball_rotation :: "osd_state \<Rightarrow> real list" where
  "navball_rotation pb_state =
     (let azimuth = (if has_actual_space_time pb_state
                     then st_azimuth (actual_space_time pb_state) else 0);
          elevation = (if has_actual_space_time pb_state
                       then st_elevation (actual_space_time pb_state) else 0);
          bank = (if has_actual_space_time pb_state
                  then st_bank (actual_space_time pb_state) else 0);
          pitch_rad = DEG_TO_RAD elevation;
          roll_rad = DEG_TO_RAD azimuth;
          yaw_rad = DEG_TO_RAD bank
      in concat (glm_quat_mat4 (glm_euler_yxz_quat (pitch_rad, roll_rad, yaw_rad))))"

text \<open>The body of the sphere loop at table position \<open>(x, y)\<close>.\<close>

definition navball_shade_pixel ::
  "navball_context \<Rightarrow> navball_lut \<Rightarrow> texture \<Rightarrow> real list \<Rightarrow> vec3 \<Rightarrow> int \<Rightarrow> int
     \<Rightarrow> framebuffer \<Rightarrow> framebuffer" where
  "navball_shade_pixel ctx lut skin rotation light_dir y x fb =
     (let idx = nat (y * lut_size lut + x);
          entry = entries lut ! idx
      in if \<not> valid entry then fb
         else
           let point = sphere_point entry;
               rotated = mat4_mul_vec3 rotation point;
               uv = sphere_to_uv rotated;
               color = texture_sample (Some skin) (uv_u uv) (uv_v uv);
               ndotl0 = vec3_dot point light_dir;
               ndotl = (if ndotl0 < 0 then 0 else ndotl0);
               lighting = 0.4 + 0.6 * ndotl;
               r = c_uint8 (real (unat (color AND 0xFF)) * lighting);
               g = c_uint8 (real (unat (drop_bit 8 color AND 0xFF)) * lighting);
               b = c_uint8 (real (unat (drop_bit 16 color AND 0xFF)) * lighting);
               a = (ucast (drop_bit 24 color AND 0xFF) :: 8 word);
               screen_x = navball_x ctx + x;
               screen_y = navball_y ctx + y
           in if 0 \<le> screen_x \<and> screen_x < ctx_width ctx
                 \<and> 0 \<le> screen_y \<and> screen_y < ctx_height ctx
              then framebuffer_blend_pixel fb screen_x screen_y (assemble_rgba a b g r)
              else fb)"

definition navball_center_indicator ::
  "navball_services \<Rightarrow> navball_context \<Rightarrow> framebuffer \<Rightarrow> framebuffer" where
  "navball_center_indicator sv ctx fb =
     (if navball_show_center_indicator ctx
         \<and> svg_image (navball_center_indicator_svg ctx) \<noteq> None
      then let indicator_size =
                 c_int (real_of_int (navball_size ctx) * navball_center_indicator_scale ctx);
               indicator_x = navball_x ctx + c_div (navball_size ctx - indicator_size) 2;
               indicator_y = navball_y ctx + c_div (navball_size ctx - indicator_size) 2
           in svg_render sv fb (navball_center_indicator_svg ctx) indicator_x indicator_y
                indicator_size indicator_size
      else fb)"

text \<open>
  The sun block and the moon block of \<^verbatim>\<open>navball_render\<close> are the same code on
  different data; \<open>navball_body_indicator\<close> is that code, given the switch
  (\<^verbatim>\<open>celestial_show_sun\<close> or \<^verbatim>\<open>celestial_show_moon\<close>), the position and the two icons.
\<close>

definition navball_body_indicator ::
  "navball_services \<Rightarrow> navball_context \<Rightarrow> osd_state \<Rightarrow> bool \<Rightarrow> celestial_position
     \<Rightarrow> svg_resource \<Rightarrow> svg_resource \<Rightarrow> framebuffer \<Rightarrow> framebuffer" where
  "navball_body_indicator sv ctx pb_state shown body front_svg back_svg fb =
     (if shown \<and> cel_valid body
         \<and> celestial_visibility_threshold ctx \<le> cel_altitude body
      then
        let navball_center_x = navball_x ctx + c_div (navball_size ctx) 2;
            navball_center_y = navball_y ctx + c_div (navball_size ctx) 2;
            navball_radius = c_div (navball_size ctx) 2;
            indicator_size =
              c_int (real_of_int (navball_size ctx) * 0.52 * celestial_indicator_scale ctx);
            res = celestial_to_navball_coords (cel_azimuth body) (cel_altitude body)
                    (st_azimuth (actual_space_time pb_state))
                    (st_elevation (actual_space_time pb_state))
                    (st_bank (actual_space_time pb_state))
                    navball_center_x navball_center_y navball_radius;
            is_front = fst res;
            body_x = fst (snd res);
            body_y = snd (snd res);
            body_svg = (if is_front then front_svg else back_svg);
            render_size = (if is_front then indicator_size
                           else c_int (real_of_int indicator_size * 0.7));
            render_alpha = (if is_front then 1 else 0.5)
        in if svg_image body_svg \<noteq> None
           then svg_render_with_alpha sv fb body_svg
                  (body_x - c_div render_size 2) (body_y - c_div render_size 2)
                  render_size render_size render_alpha
           else fb
      else fb)"

definition navball_celestial ::
  "navball_services \<Rightarrow> navball_context \<Rightarrow> osd_state \<Rightarrow> framebuffer \<Rightarrow> framebuffer" where
  "navball_celestial sv ctx pb_state fb =
     (if celestial_enabled ctx \<and> has_actual_space_time pb_state
      then
        let observer = \<lparr>obs_latitude = st_latitude (actual_space_time pb_state),
                        obs_longitude = st_longitude (actual_space_time pb_state),
                        obs_altitude = st_altitude (actual_space_time pb_state)\<rparr>;
            positions = celestial_calculate sv (st_timestamp (actual_space_time pb_state)) observer;
            fb1 = navball_body_indicator sv ctx pb_state (celestial_show_sun ctx)
                    (sun positions) (celestial_sun_front_svg ctx) (celestial_sun_back_svg ctx) fb
        in navball_body_indicator sv ctx pb_state (celestial_show_moon ctx)
             (moon positions) (celestial_moon_front_svg ctx) (celestial_moon_back_svg ctx) fb1
      else fb)"

definition navball_level_marker ::
  "navball_context \<Rightarrow> navball_lut \<Rightarrow> framebuffer \<Rightarrow> framebuffer" where
  "navball_level_marker ctx lut fb =
     (if navball_show_level_marker ctx
      then
        let center_y = navball_y ctx + c_div (navball_size ctx) 2;
            line_length = navball_size ctx
        in for_loop 0 (line_length - 1) (\<lambda>x fb'.
             let screen_x = navball_x ctx + x;
                 idx = c_div (navball_size ctx) 2 * lut_size lut + x
             in if 0 \<le> idx \<and> idx < total_pixels lut \<and> valid (entries lut ! nat idx)
                then framebuffer_blend_pixel fb' screen_x center_y 0xFFFFFFFF
                else fb') fb
      else fb)"

text \<open>
  \<^verbatim>\<open>navball_render\<close>: the result is the returned flag together with the pixel array
  after the call. A \<^verbatim>\<open>NULL\<close> context is \<open>None\<close>.
\<close>

definition navball_render ::
  "navball_services \<Rightarrow> navball_context option \<Rightarrow> osd_state \<Rightarrow> 32 word list
     \<Rightarrow> bool \<times> 32 word list" where
  "navball_render sv ctx_ptr pb_state buffer =
     (case ctx_ptr of None \<Rightarrow> (False, buffer)
      | Some ctx \<Rightarrow>
        if \<not> navball_enabled ctx \<or> navball_texture ctx = None \<or> navball_lut ctx = None
        then (False, buffer)
        else
          let skin = the (navball_texture ctx);
              rotation = navball_rotation pb_state;
              fb = framebuffer_init buffer (ctx_width ctx) (ctx_height ctx);
              lut = the (navball_lut ctx);
              light_dir = vec3_normalize (vec3_new 0.3 0.3 1.0);
              fb1 = for_loop 0 (navball_size ctx - 1) (\<lambda>y.
                      for_loop 0 (navball_size ctx - 1) (\<lambda>x.
                        navball_shade_pixel ctx lut skin rotation light_dir y x)) fb;
              fb2 = navball_center_indicator sv ctx fb1;
              fb3 = navball_celestial sv ctx pb_state fb2;
              fb4 = navball_level_marker ctx lut fb3
          in (True, pixels fb4))"


section \<open>Widgets and the render entry point\<close>

text \<open>
  The configuration and context fields that the modelled code reads
  (\<^verbatim>\<open>config/osd_config.h\<close>, \<^verbatim>\<open>core/osd_context.h\<close>). The global pixel array
  \<^verbatim>\<open>g_framebuffer\<close>, to which \<^verbatim>\<open>ctx->framebuffer\<close> points, is passed and returned
  next to the context. A font resource is inspected for whether its \<^verbatim>\<open>data\<close> pointer is
  set. The array \<^verbatim>\<open>radar_compass_ring_distances\<close> is the list of its entries. The five
  celestial settings of \<^verbatim>\<open>osd_context_t\<close> carry the suffix \<open>_osd\<close>, their names being
  those of the context of the sphere renderer above.
\<close>

datatype crosshair_orientation_t =
  CROSSHAIR_ORIENTATION_VERTICAL | CROSSHAIR_ORIENTATION_DIAGONAL











subsection \<open>Lines and rectangles\<close>

record line_params =
  lp_x1 :: int
  lp_y1 :: int
  lp_dx :: int
  lp_dy :: int
  lp_sx :: int
  lp_sy :: int
  lp_half_thick :: int
  lp_color :: "32 word"

text \<open>The square stamp drawn at every step of \<^verbatim>\<open>draw_line\<close>.\<close>

definition draw_line_stamp :: "line_params \<Rightarrow> int \<Rightarrow> int \<Rightarrow> framebuffer \<Rightarrow> framebuffer" where
  "draw_line_stamp p x0 y0 fb =
     for_loop (- lp_half_thick p) (lp_half_thick p) (\<lambda>ty.
       for_loop (- lp_half_thick p) (lp_half_thick p) (\<lambda>tx fb'.
         draw_pixel fb' (x0 + tx) (y0 + ty) (lp_color p))) fb"

text \<open>
  The \<^verbatim>\<open>while (1)\<close> loop of \<^verbatim>\<open>draw_line\<close>; \<open>None\<close> stands for a loop that never
  reaches the end point.
\<close>

partial_function (option) draw_line_loop ::
  "line_params \<Rightarrow> int \<Rightarrow> int \<Rightarrow> int \<Rightarrow> framebuffer \<Rightarrow> framebuffer option" where
  "draw_line_loop p x0 y0 err fb =
     (let fb' = draw_line_stamp p x0 y0 fb in
      if x0 = lp_x1 p \<and> y0 = lp_y1 p then Some fb'
      else
        let e2 = 2 * err;
            err1 = (if - lp_dy p < e2 then err - lp_dy p else err);
            x0' = (if - lp_dy p < e2 then x0 + lp_sx p else x0);
            err2 = (if e2 < lp_dx p then err1 + lp_dx p else err1);
            y0' = (if e2 < lp_dx p then y0 + lp_sy p else y0)
        in draw_line_loop p x0' y0' err2 fb')"

definition draw_line ::
  "framebuffer \<Rightarrow> int \<Rightarrow> int \<Rightarrow> int \<Rightarrow> int \<Rightarrow> 32 word \<Rightarrow> real \<Rightarrow> framebuffer option" where
  "draw_line fb x0 y0 x1 y1 color thickness =
     (let dx = \<bar>x1 - x0\<bar>;
          dy = \<bar>y1 - y0\<bar>;
          sx = (if x0 < x1 then 1 else - 1);
          sy = (if y0 < y1 then 1 else - 1);
          err = dx - dy;
          half_thick = c_int (thickness / 2)
      in draw_line_loop
           \<lparr>lp_x1 = x1, lp_y1 = y1, lp_dx = dx, lp_dy = dy, lp_sx = sx, lp_sy = sy,
            lp_half_thick = half_thick, lp_color = color\<rparr> x0 y0 err fb)"


subsection \<open>Ellipses\<close>






subsection \<open>Crosshair\<close>










subsection \<open>Telemetry accessors\<close>







subsection \<open>Radar compass\<close>













subsection \<open>Variant info\<close>


subsection \<open>The render pass\<close>





section \<open>Auxiliary predicates for the proofs\<close>

text \<open>A framebuffer of the given width and height whose pixel array has the matching
  length, and such a framebuffer whose pixel \<open>i\<close> is opaque white.\<close>

definition fb_shape :: "int \<Rightarrow> int \<Rightarrow> framebuffer \<Rightarrow> bool" where
  "fb_shape w h fb = (width fb = w \<and> height fb = h \<and> int (length (pixels fb)) = w * h)"

definition white_at :: "int \<Rightarrow> int \<Rightarrow> nat \<Rightarrow> framebuffer \<Rightarrow> bool" where
  "white_at w h i fb = (fb_shape w h fb \<and> pixels fb ! i = 0xFFFFFFFF)"

text \<open>The invariant of the line loop: \<open>a\<close> and \<open>b\<close> are the distances left to the end
  point along the two axes.\<close>

definition line_inv :: "line_params \<Rightarrow> int \<Rightarrow> int \<Rightarrow> int \<Rightarrow> int \<Rightarrow> int \<Rightarrow> bool" where
  "line_inv p x0 y0 err a b =
     (0 \<le> a \<and> a \<le> lp_dx p \<and> 0 \<le> b \<and> b \<le> lp_dy p
      \<and> lp_x1 p - x0 = lp_sx p * a \<and> lp_y1 p - y0 = lp_sy p * b
      \<and> (lp_sx p = 1 \<or> lp_sx p = - 1) \<and> (lp_sy p = 1 \<or> lp_sy p = - 1)
      \<and> err = lp_dx p - lp_dy p + a * lp_dy p - b * lp_dx p)"

text \<open>A framebuffer of the given shape whose pixel \<open>i\<close> is still cleared.\<close>

definition black_at :: "int \<Rightarrow> int \<Rightarrow> nat \<Rightarrow> framebuffer \<Rightarrow> bool" where
  "black_at w h i fb = (fb_shape w h fb \<and> pixels fb ! i = 0)"

text \<open>Every entry of a table that is flagged valid holds a vector of length 1.\<close>

definition unit_entries :: "navball_lut_entry list \<Rightarrow> bool" where
  "unit_entries es = (\<forall>e \<in> set es. valid e \<longrightarrow> vec3_length (sphere_point e) = 1)"


text \<open>Concrete collaborators and records for the examples below.\<close>

text \<open>Two different stale table headers, as \<^verbatim>\<open>malloc\<close> may return them.\<close>

definition stale_lut :: navball_lut where
  "stale_lut = \<lparr>entries = [], lut_size = 0, total_pixels = 0, lut_radius = 0\<rparr>"

definition other_stale_lut :: navball_lut where
  "other_stale_lut = \<lparr>entries = [\<lparr>sphere_point = vec3_new 1 2 3, valid = True\<rparr>],
                       lut_size = - 7, total_pixels = 9, lut_radius = 4\<rparr>"

definition no_svg :: svg_resource where
  "no_svg = \<lparr>svg_image = None\<rparr>"

definition no_body :: celestial_position where
  "no_body = \<lparr>cel_azimuth = 0, cel_altitude = 0, cel_valid = False\<rparr>"

definition idle_navball_services :: navball_services where
  "idle_navball_services =
     \<lparr>svg_render = (\<lambda>fb svg x y w h. fb),
      svg_render_with_alpha = (\<lambda>fb svg x y w h alpha. fb),
      celestial_calculate = (\<lambda>t obs. \<lparr>sun = no_body, moon = no_body\<rparr>)\<rparr>"

definition zero_state :: osd_state where
  "zero_state =
     \<lparr>has_actual_space_time = False,
      actual_space_time = \<lparr>st_azimuth = 0, st_elevation = 0, st_bank = 0, st_latitude = 0,
                            st_longitude = 0, st_altitude = 0, st_timestamp = 0\<rparr>,
      rec_osd = \<lparr>heat_osd_enabled = False, heat_crosshair_offset_horizontal = 0,
                  heat_crosshair_offset_vertical = 0, day_crosshair_offset_horizontal = 0,
                  day_crosshair_offset_vertical = 0\<rparr>,
      has_rotary = False,
      rotary = \<lparr>azimuth_speed = 0, elevation_speed = 0, is_moving = False\<rparr>,
      has_compass = False,
      compass = \<lparr>compass_azimuth = 0, compass_elevation = 0, compass_bank = 0\<rparr>,
      has_time = False,
      time = \<lparr>time_timestamp = 0\<rparr>,
      has_camera_day = False,
      camera_day = \<lparr>horizontal_fov_degrees = 0\<rparr>,
      has_camera_heat = False,
      camera_heat = \<lparr>horizontal_fov_degrees = 0\<rparr>\<rparr>"

text \<open>A context as \<^verbatim>\<open>navball_init\<close> leaves it when the widget is disabled in the
  configuration: the flag is off and neither texture nor table was created.\<close>

definition disabled_navball_context :: navball_context where
  "disabled_navball_context =
     \<lparr>ctx_width = 1920, ctx_height = 1080, navball_enabled = False,
      navball_x = 100, navball_y = 100, navball_size = 300,
      navball_texture = None, navball_lut = None,
      navball_show_level_marker = True, navball_show_center_indicator = False,
      navball_center_indicator_scale = 1, navball_center_indicator_svg = no_svg,
      celestial_enabled = False, celestial_show_sun = False, celestial_show_moon = False,
      celestial_indicator_scale = 1, celestial_visibility_threshold = - 5,
      celestial_sun_front_svg = no_svg, celestial_sun_back_svg = no_svg,
      celestial_moon_front_svg = no_svg, celestial_moon_back_svg = no_svg\<rparr>"






section \<open>Loops and pixels: basic facts\<close>

lemma for_loop_empty: "hi < lo \<Longrightarrow> for_loop lo hi body s = s"
  by (simp add: for_loop_def)

lemma for_loop_single: "for_loop i i body s = body i s"
  by (simp add: for_loop_def)

lemma c_int_le_m1: "f \<le> - 1 \<Longrightarrow> c_int f \<le> - 1"
  by (simp add: c_int_def ceiling_le_iff)

lemma c_int_zero: "- 1 < f \<Longrightarrow> f \<le> 0 \<Longrightarrow> c_int f = 0"
  unfolding c_int_def by (auto simp: ceiling_eq_iff)

lemma blend_over_white: "blend_over d 0xFFFFFFFF = 0xFFFFFFFF"
  by (simp add: blend_over_def color_channel_def blend_channel_def pack_color_def)

lemma draw_pixel_shape: "fb_shape w h fb \<Longrightarrow> fb_shape w h (draw_pixel fb x y c)"
  by (simp add: fb_shape_def draw_pixel_def framebuffer_blend_pixel_def Let_def)

lemma update_keeps_value: "xs ! i = v \<Longrightarrow> (xs[k := v]) ! i = v"
  by (cases "k < length xs") (simp_all add: nth_list_update not_less list_update_beyond)

lemma draw_pixel_keeps_white:
  "white_at w h i fb \<Longrightarrow> white_at w h i (draw_pixel fb x y 0xFFFFFFFF)"
  by (simp add: white_at_def fb_shape_def draw_pixel_def framebuffer_blend_pixel_def Let_def
        update_keeps_value blend_over_white)

lemma draw_pixel_makes_white:
  assumes "fb_shape w h fb" "0 \<le> x" "x < w" "0 \<le> y" "y < h"
  shows "white_at w h (nat (y * w + x)) (draw_pixel fb x y 0xFFFFFFFF)"
proof -
  have "y * w + x < (y + 1) * w" using assms by (simp add: algebra_simps)
  also have "\<dots> \<le> h * w" using assms by (intro mult_right_mono) auto
  finally have "y * w + x < w * h" by (simp add: mult.commute)
  moreover have "0 \<le> y * w + x" using assms by simp
  ultimately have "nat (y * w + x) < length (pixels fb)"
    using assms(1) by (simp add: fb_shape_def nat_less_iff)
  then show ?thesis
    using assms
    by (simp add: white_at_def fb_shape_def draw_pixel_def framebuffer_blend_pixel_def
          Let_def blend_over_white)
qed

lemma fold_preserves:
  assumes "\<And>x s. P s \<Longrightarrow> P (f x s)" "P s"
  shows "P (fold f xs s)"
  using assms(2) by (induction xs arbitrary: s) (simp_all add: assms(1))

lemma fold_establishes:
  assumes step: "\<And>x s. R s \<Longrightarrow> R (f x s)"
    and keep: "\<And>x s. Q s \<Longrightarrow> Q (f x s)"
    and hit: "\<And>s. R s \<Longrightarrow> Q (f a s)"
    and mem: "a \<in> set xs" and start: "R s"
  shows "Q (fold f xs s)"
  using mem start
proof (induction xs arbitrary: s)
  case Nil
  then show ?case by simp
next
  case (Cons x xs)
  show ?case
  proof (cases "x = a")
    case True
    have "Q (f a s)" using hit Cons.prems(2) by simp
    then have "Q (fold f xs (f a s))" using keep by (rule fold_preserves [rotated])
    then show ?thesis using True by simp
  next
    case False
    then have "a \<in> set xs" using Cons.prems(1) by simp
    moreover have "R (f x s)" using step Cons.prems(2) by simp
    ultimately show ?thesis using Cons.IH by simp
  qed
qed

lemma for_loop_preserves:
  "(\<And>x s. P s \<Longrightarrow> P (body x s)) \<Longrightarrow> P s \<Longrightarrow> P (for_loop lo hi body s)"
  unfolding for_loop_def by (rule fold_preserves)

lemma for_loop_establishes:
  assumes "\<And>x s. R s \<Longrightarrow> R (body x s)" "\<And>x s. Q s \<Longrightarrow> Q (body x s)"
    "\<And>s. R s \<Longrightarrow> Q (body a s)" "lo \<le> a" "a \<le> hi" "R s"
  shows "Q (for_loop lo hi body s)"
  unfolding for_loop_def
  by (rule fold_establishes [where R = R and a = a]) (use assms in auto)

lemma add_turns_nonneg: "0 \<le> a \<Longrightarrow> add_turns a = a"
  by (subst add_turns.simps) simp

lemma sub_turns_small: "a < 2 * M_PI \<Longrightarrow> sub_turns a = a"
  by (subst sub_turns.simps) simp

lemma M_PI_pos: "0 < M_PI" by (simp add: M_PI_def)


section \<open>The framebuffer blend is bounds-checked\<close>

text \<open>
  Claim C5. For every coordinate pair \<open>(x, y)\<close> outside the rectangle
  \<open>[0,width) \<times> [0,height)\<close>, \<^verbatim>\<open>framebuffer_blend_pixel\<close>, and with it
  \<^verbatim>\<open>draw_pixel\<close>, returns the framebuffer it was given: no pixel changes, and there
  is no error result to return.
\<close>

theorem blend_pixel_out_of_bounds:
  "\<not> (0 \<le> x \<and> x < width fb \<and> 0 \<le> y \<and> y < height fb) \<Longrightarrow>
     framebuffer_blend_pixel fb x y color = fb \<and> draw_pixel fb x y color = fb"
  by (auto simp: framebuffer_blend_pixel_def draw_pixel_def)

theorem blend_pixel_out_of_bounds_witness:
  "framebuffer_blend_pixel \<lparr>pixels = [1, 2, 3, 4], width = 2, height = 2\<rparr> 2 0 0xFFFFFFFF
     = \<lparr>pixels = [1, 2, 3, 4], width = 2, height = 2\<rparr>
   \<and> draw_pixel \<lparr>pixels = [1, 2, 3, 4], width = 2, height = 2\<rparr> 2 0 0xFFFFFFFF
     = \<lparr>pixels = [1, 2, 3, 4], width = 2, height = 2\<rparr>"
  using blend_pixel_out_of_bounds
    [of 2 "\<lparr>pixels = [1, 2, 3, 4], width = 2, height = 2\<rparr>" 0 "0xFFFFFFFF"]
  by simp


section \<open>Shapes with a non-positive radius\<close>

text \<open>
  Claim C4, as stated, fails at radius 0: the integer radius \<^verbatim>\<open>(int)radius\<close> is 0,
  both loops run once with \<open>x = y = 0\<close>, and the centre pixel is blended. On a
  one-pixel framebuffer a filled circle of radius 0 in opaque white changes the pixel.
\<close>

theorem radius_zero_draws_counterexample:
  "draw_filled_circle \<lparr>pixels = [0], width = 1, height = 1\<rparr> 0 0 0 0xFFFFFFFF
     \<noteq> \<lparr>pixels = [0], width = 1, height = 1\<rparr>"
  by (simp add: draw_filled_circle_def c_int_def for_loop_single draw_pixel_def
        framebuffer_blend_pixel_def blend_over_white)


text \<open>
  Claim C4, amended. For every radius \<open>\<le> -1\<close> the integer radius is negative, the
  scan loops are empty, and the filled circle and the filled wedge return the framebuffer
  unchanged; the circle outline does so when \<open>radius + thickness/2 \<le> -1\<close>. For
  \<open>-1 < radius \<le> 0\<close> the filled circle blends exactly the centre pixel. All three are
  total: there is no error result.
\<close>

theorem negative_radius_draws:
  "(radius \<le> - 1 \<longrightarrow>
      draw_filled_circle fb cx cy radius color = fb \<and>
      draw_wedge_filled fb cx cy radius s e color = fb) \<and>
   (radius + thickness / 2 \<le> - 1 \<longrightarrow>
      draw_circle_outline fb cx cy radius color thickness = fb) \<and>
   (- 1 < radius \<and> radius \<le> 0 \<longrightarrow>
      draw_filled_circle fb cx cy radius color = draw_pixel fb cx cy color)"
proof (intro conjI impI)
  assume "radius \<le> - 1"
  then have r: "c_int radius < - c_int radius" using c_int_le_m1 [of radius] by linarith
  show "draw_filled_circle fb cx cy radius color = fb"
    using r by (simp add: draw_filled_circle_def Let_def for_loop_empty)
  show "draw_wedge_filled fb cx cy radius s e color = fb"
    using r by (simp add: draw_wedge_filled_def Let_def for_loop_empty split: prod.splits)
next
  assume "radius + thickness / 2 \<le> - 1"
  then have "c_int (radius + thickness / 2) < - c_int (radius + thickness / 2)"
    using c_int_le_m1 [of "radius + thickness / 2"] by linarith
  then show "draw_circle_outline fb cx cy radius color thickness = fb"
    by (simp add: draw_circle_outline_def Let_def for_loop_empty)
next
  assume "- 1 < radius \<and> radius \<le> 0"
  then have "c_int radius = 0" by (simp add: c_int_zero)
  then show "draw_filled_circle fb cx cy radius color = draw_pixel fb cx cy color"
    by (simp add: draw_filled_circle_def for_loop_single)
qed

theorem negative_radius_draws_witness:
  "draw_filled_circle \<lparr>pixels = [0], width = 1, height = 1\<rparr> 0 0 (- 2) 0xFFFFFFFF
     = \<lparr>pixels = [0], width = 1, height = 1\<rparr>
   \<and> draw_wedge_filled \<lparr>pixels = [0], width = 1, height = 1\<rparr> 0 0 (- 2) 0 90 0xFFFFFFFF
     = \<lparr>pixels = [0], width = 1, height = 1\<rparr>
   \<and> draw_circle_outline \<lparr>pixels = [0], width = 1, height = 1\<rparr> 0 0 (- 2) 0xFFFFFFFF 1
     = \<lparr>pixels = [0], width = 1, height = 1\<rparr>
   \<and> draw_filled_circle \<lparr>pixels = [0], width = 1, height = 1\<rparr> 0 0 (- (1 / 2)) 0xFFFFFFFF
     = draw_pixel \<lparr>pixels = [0], width = 1, height = 1\<rparr> 0 0 0xFFFFFFFF"
  using negative_radius_draws
      [of "- 2" "\<lparr>pixels = [0], width = 1, height = 1\<rparr>" 0 0 "0xFFFFFFFF" 0 90 1]
    negative_radius_draws
      [of "- (1 / 2)" "\<lparr>pixels = [0], width = 1, height = 1\<rparr>" 0 0 "0xFFFFFFFF" 0 90 1]
  by simp


section \<open>Angle order of the filled wedge\<close>

text \<open>
  Claim C9. \<^verbatim>\<open>draw_wedge_filled\<close> does not depend on the order of its two angle
  arguments: for every framebuffer, centre, radius, colour and angle pair \<open>(s, e)\<close>
  the call with \<open>(s, e)\<close> returns the same framebuffer as the call with \<open>(e, s)\<close>,
  because the routine first swaps them into ascending order. The wedge \<open>[10, 350]\<close>
  and its swapped form \<open>[350, 10]\<close> are an instance.
\<close>

theorem wedge_angle_order:
  "draw_wedge_filled fb cx cy radius s e color = draw_wedge_filled fb cx cy radius e s color"
proof -
  consider "s < e" | "e < s" | "s = e" by linarith
  then show ?thesis
    by cases (simp_all add: draw_wedge_filled_def)
qed


section \<open>The quarter wedge from 0 to 90 degrees\<close>

text \<open>
  For the compass wedge from 0 to 90 degrees the converted angles are
  \<open>start_rad = M_PI/2\<close> and \<open>end_rad = 0\<close>, so \<^verbatim>\<open>wraps = (end_rad < start_rad)\<close>
  holds and the routine takes the branch written for a wedge that crosses the zero
  direction: it accepts a pixel when its angle is \<open>\<ge> M_PI/2\<close> or \<open>\<le> 0\<close>.
\<close>

lemma quarter_start: "sub_turns (add_turns (compass_to_math_rad 0)) = M_PI / 2"
proof -
  have "compass_to_math_rad 0 = M_PI / 2"
    by (simp add: compass_to_math_rad_def deg_to_radf_def)
  then show ?thesis using M_PI_pos by (simp add: add_turns_nonneg sub_turns_small)
qed

lemma quarter_end: "sub_turns (add_turns (compass_to_math_rad 90)) = 0"
proof -
  have "compass_to_math_rad 90 = 0"
    by (simp add: compass_to_math_rad_def deg_to_radf_def)
  then show ?thesis using M_PI_pos by (simp add: add_turns_nonneg sub_turns_small)
qed

lemma lower_left_angle: "wedge_pixel_angle (- 10) 10 = 2 * M_PI - 3 * pi / 4"
proof -
  have "atan2f (- 10) (- 10) = pi / 4 - pi"
    by (simp add: atan2f_def arctan_one)
  moreover have "pi / 4 - pi < 0" using pi_gt_zero by simp
  ultimately show ?thesis by (simp add: wedge_pixel_angle_def)
qed

lemma lower_left_in_wedge: "in_wedge (M_PI / 2) 0 (wedge_pixel_angle (- 10) 10)"
proof -
  have "3 * pi / 4 < 3" using pi_less_4 by simp
  moreover have "3 < M_PI" by (simp add: M_PI_def)
  ultimately have "M_PI / 2 \<le> 2 * M_PI - 3 * pi / 4" by simp
  then show ?thesis using M_PI_pos by (simp add: in_wedge_def lower_left_angle)
qed

lemma c_int_50: "c_int 50 = 50" by (simp add: c_int_def)

lemma quarter_wedge_unfold:
  "draw_wedge_filled fb cx cy 50 0 90 color =
     for_loop (- 50) 50 (\<lambda>y.
       for_loop (- 50) 50 (\<lambda>x fb'.
         if (50::real) * 50 < real_of_int (x * x + y * y) then fb'
         else if in_wedge (M_PI / 2) 0 (wedge_pixel_angle x y)
              then draw_pixel fb' (cx + x) (cy + y) color else fb')) fb"
  by (simp add: draw_wedge_filled_def c_int_50 quarter_start quarter_end cong: if_cong)

lemma quarter_wedge_hits_lower_left:
  assumes shape: "fb_shape 200 200 fb"
  shows "white_at 200 200 22090 (draw_wedge_filled fb 100 100 50 0 90 0xFFFFFFFF)"
proof -
  let ?inner = "\<lambda>y x fb'.
     if (50::real) * 50 < real_of_int (x * x + y * y) then fb'
     else if in_wedge (M_PI / 2) 0 (wedge_pixel_angle x y)
          then draw_pixel fb' (100 + x) (100 + y) 0xFFFFFFFF else fb'"
  have inner_shape: "\<And>y x s. fb_shape 200 200 s \<Longrightarrow> fb_shape 200 200 (?inner y x s)"
    by (simp add: draw_pixel_shape)
  have inner_keep: "\<And>y x s. white_at 200 200 22090 s \<Longrightarrow> white_at 200 200 22090 (?inner y x s)"
    by (simp add: draw_pixel_keeps_white)
  have inner_hit: "\<And>s. fb_shape 200 200 s \<Longrightarrow> white_at 200 200 22090 (?inner 10 (- 10) s)"
  proof -
    fix s assume s: "fb_shape 200 200 s"
    have "white_at 200 200 (nat (110 * 200 + 90)) (draw_pixel s 90 110 0xFFFFFFFF)"
      using s by (intro draw_pixel_makes_white) simp_all
    then show "white_at 200 200 22090 (?inner 10 (- 10) s)"
      using lower_left_in_wedge by simp
  qed
  have row_shape: "\<And>y s. fb_shape 200 200 s \<Longrightarrow> fb_shape 200 200 (for_loop (- 50) 50 (?inner y) s)"
    by (rule for_loop_preserves) (rule inner_shape)
  have row_keep: "\<And>y s. white_at 200 200 22090 s \<Longrightarrow> white_at 200 200 22090 (for_loop (- 50) 50 (?inner y) s)"
    by (rule for_loop_preserves) (rule inner_keep)
  have row_hit: "\<And>s. fb_shape 200 200 s \<Longrightarrow> white_at 200 200 22090 (for_loop (- 50) 50 (?inner 10) s)"
  proof -
    fix s assume s: "fb_shape 200 200 s"
    show "white_at 200 200 22090 (for_loop (- 50) 50 (?inner 10) s)"
    proof (rule for_loop_establishes [where R = "fb_shape 200 200" and a = "- 10"])
      show "\<And>x s. fb_shape 200 200 s \<Longrightarrow> fb_shape 200 200 (?inner 10 x s)" by (rule inner_shape)
      show "\<And>x s. white_at 200 200 22090 s \<Longrightarrow> white_at 200 200 22090 (?inner 10 x s)" by (rule inner_keep)
      show "\<And>s. fb_shape 200 200 s \<Longrightarrow> white_at 200 200 22090 (?inner 10 (- 10) s)" by (rule inner_hit)
    qed (simp_all add: s)
  qed
  have "white_at 200 200 22090 (for_loop (- 50) 50 (\<lambda>y. for_loop (- 50) 50 (?inner y)) fb)"
  proof (rule for_loop_establishes [where R = "fb_shape 200 200" and a = 10])
    show "\<And>y s. fb_shape 200 200 s \<Longrightarrow> fb_shape 200 200 (for_loop (- 50) 50 (?inner y) s)" by (rule row_shape)
    show "\<And>y s. white_at 200 200 22090 s \<Longrightarrow> white_at 200 200 22090 (for_loop (- 50) 50 (?inner y) s)" by (rule row_keep)
    show "\<And>s. fb_shape 200 200 s \<Longrightarrow> white_at 200 200 22090 (for_loop (- 50) 50 (?inner 10) s)" by (rule row_hit)
  qed (simp_all add: shape)
  then show ?thesis by (simp only: quarter_wedge_unfold)
qed


lemma fold_preserves_on:
  assumes "\<And>x s. x \<in> set xs \<Longrightarrow> P s \<Longrightarrow> P (f x s)" "P s"
  shows "P (fold f xs s)"
  using assms by (induction xs arbitrary: s) simp_all

lemma for_loop_preserves_on:
  assumes "\<And>x s. lo \<le> x \<Longrightarrow> x \<le> hi \<Longrightarrow> P s \<Longrightarrow> P (body x s)" "P s"
  shows "P (for_loop lo hi body s)"
  unfolding for_loop_def by (rule fold_preserves_on) (use assms in auto)

lemma draw_pixel_elsewhere:
  assumes "black_at w h i fb" "0 \<le> x" "x < w" "0 \<le> y" "nat (y * w + x) \<noteq> i"
  shows "black_at w h i (draw_pixel fb x y c)"
  using assms
  by (simp add: black_at_def fb_shape_def draw_pixel_def framebuffer_blend_pixel_def Let_def)

lemma upper_right_angle: "wedge_pixel_angle 10 (- 10) = pi / 4"
proof -
  have a: "atan2f 10 10 = pi / 4" by (simp add: atan2f_def arctan_one)
  have nn: "\<not> atan2f 10 10 < 0" unfolding a using pi_gt_zero by simp
  have "wedge_pixel_angle 10 (- 10) =
          (if atan2f 10 10 < 0 then atan2f 10 10 + 2 * M_PI else atan2f 10 10)"
    by (simp add: wedge_pixel_angle_def Let_def)
  also have "\<dots> = atan2f 10 10" using nn by (simp only: if_False)
  also have "\<dots> = pi / 4" by (rule a)
  finally show ?thesis .
qed

lemma upper_right_not_in_wedge: "\<not> in_wedge (M_PI / 2) 0 (wedge_pixel_angle 10 (- 10))"
proof -
  have eq: "in_wedge (M_PI / 2) 0 (pi / 4) \<longleftrightarrow> (M_PI / 2 \<le> pi / 4 \<or> pi / 4 \<le> 0)"
    using M_PI_pos by (simp add: in_wedge_def)
  have "pi / 4 < 1" using pi_less_4 by simp
  moreover have "1 < M_PI / 2" by (simp add: M_PI_def)
  ultimately have n1: "\<not> M_PI / 2 \<le> pi / 4" by linarith
  have n2: "\<not> pi / 4 \<le> 0" using pi_gt_zero by linarith
  show ?thesis unfolding upper_right_angle using eq n1 n2 by blast
qed

lemma quarter_wedge_misses_upper_right:
  assumes start: "black_at 200 200 18110 fb"
  shows "black_at 200 200 18110 (draw_wedge_filled fb 100 100 50 0 90 c)"
proof -
  let ?inner = "\<lambda>y x fb'.
     if (50::real) * 50 < real_of_int (x * x + y * y) then fb'
     else if in_wedge (M_PI / 2) 0 (wedge_pixel_angle x y)
          then draw_pixel fb' (100 + x) (100 + y) c else fb'"
  have step: "black_at 200 200 18110 (?inner y x s)"
    if "- 50 \<le> x" "x \<le> 50" "- 50 \<le> y" "y \<le> 50" "black_at 200 200 18110 s" for x y s
  proof (cases "x = 10 \<and> y = - 10")
    case True
    then show ?thesis using that(5) upper_right_not_in_wedge by simp
  next
    case False
    have "(100 + y) * 200 + (100 + x) \<noteq> 18110" using False that(1-4) by presburger
    then have "nat ((100 + y) * 200 + (100 + x)) \<noteq> 18110" using that(1-4) by simp
    then have "black_at 200 200 18110 (draw_pixel s (100 + x) (100 + y) c)"
      using that by (intro draw_pixel_elsewhere) simp_all
    then show ?thesis using that(5) by simp
  qed
  have row: "black_at 200 200 18110 (for_loop (- 50) 50 (?inner y) s)"
    if "- 50 \<le> y" "y \<le> 50" "black_at 200 200 18110 s" for y s
    by (rule for_loop_preserves_on) (use that step in auto)
  have "black_at 200 200 18110 (for_loop (- 50) 50 (\<lambda>y. for_loop (- 50) 50 (?inner y)) fb)"
    by (rule for_loop_preserves_on) (use row start in auto)
  then show ?thesis by (simp only: quarter_wedge_unfold)
qed

text \<open>
  Claim C2 at a concrete input: on a cleared 200 by 200 framebuffer, the wedge from 0 to 90
  degrees with centre \<open>(100, 100)\<close>, radius 50 and opaque white writes the pixel
  \<open>(90, 110)\<close>, which lies in the lower-left quadrant (\<open>x < cx\<close> and \<open>y > cy\<close>), and
  leaves the pixel \<open>(110, 90)\<close> in the upper-right quadrant as it was.
\<close>

theorem quarter_wedge_inverted:
  "pixels (draw_wedge_filled \<lparr>pixels = replicate 40000 0, width = 200, height = 200\<rparr>
             100 100 50 0 90 0xFFFFFFFF) ! (110 * 200 + 90) = 0xFFFFFFFF
   \<and> pixels (draw_wedge_filled \<lparr>pixels = replicate 40000 0, width = 200, height = 200\<rparr>
             100 100 50 0 90 0xFFFFFFFF) ! (90 * 200 + 110) = 0"
proof -
  let ?fb = "\<lparr>pixels = replicate 40000 (0 :: 32 word), width = 200, height = 200\<rparr>"
  have shape: "fb_shape 200 200 ?fb"
    by (simp add: fb_shape_def)
  have "white_at 200 200 22090 (draw_wedge_filled ?fb 100 100 50 0 90 0xFFFFFFFF)"
    using shape by (rule quarter_wedge_hits_lower_left)
  moreover have "black_at 200 200 18110 ?fb"
    using shape by (simp add: black_at_def)
  then have "black_at 200 200 18110 (draw_wedge_filled ?fb 100 100 50 0 90 0xFFFFFFFF)"
    by (rule quarter_wedge_misses_upper_right)
  ultimately show ?thesis
    by (simp add: white_at_def black_at_def)
qed



section \<open>The constant M_PI lies below \<open>\<pi>\<close>\<close>

text \<open>
  The even partial sums of the arctangent series are lower bounds. With Euler's formula
  \<open>\<pi>/4 = 5 arctan (1/7) + 2 arctan (3/79)\<close>, twelve terms of the first series and
  eight of the second place the literal \<^verbatim>\<open>3.14159265358979323846\<close> strictly below
  \<open>\<pi>\<close>.
\<close>

lemma arctan_partial_lower:
  fixes x :: real
  assumes x0: "0 \<le> x" and x1: "x \<le> 1"
  shows "(\<Sum>i<2 * n. (- 1) ^ i * (1 / real (i * 2 + 1) * x ^ (i * 2 + 1))) \<le> arctan x"
proof -
  let ?a = "\<lambda>n. 1 / real (n * 2 + 1) * x ^ (n * 2 + 1)"
  have abs: "\<bar>x\<bar> \<le> 1" using x0 x1 by simp
  have zero: "?a \<longlonglongrightarrow> 0" by (rule zeroseq_arctan_series [OF abs])
  have pos: "\<And>n. 0 \<le> ?a n" using x0 by simp
  have mono: "\<And>n. ?a (Suc n) \<le> ?a n"
  proof -
    fix n
    have "x ^ (Suc n * 2 + 1) \<le> x ^ (n * 2 + 1)"
      using x0 x1 by (intro power_decreasing) simp_all
    moreover have "1 / real (Suc n * 2 + 1) \<le> 1 / real (n * 2 + 1)"
      by (intro divide_left_mono) simp_all
    moreover have "0 \<le> x ^ (Suc n * 2 + 1)" using x0 by simp
    ultimately show "?a (Suc n) \<le> ?a n"
      by (intro mult_mono) simp_all
  qed
  have "(\<Sum>i<2 * n. (- 1) ^ i * ?a i) \<le> (\<Sum>i. (- 1) ^ i * ?a i)"
    by (rule summable_Leibniz'(2) [OF zero pos mono])
  also have "\<dots> = arctan x" by (rule arctan_series [OF abs, symmetric])
  finally show ?thesis .
qed

lemma sum_lessThan_12:
  fixes f :: "nat \<Rightarrow> real"
  shows "(\<Sum>i<12. f i) = f 0 + f 1 + f 2 + f 3 + f 4 + f 5 + f 6 + f 7 + f 8 + f 9 + f 10 + f 11"
  by (simp add: eval_nat_numeral)

lemma sum_lessThan_8:
  fixes f :: "nat \<Rightarrow> real"
  shows "(\<Sum>i<8. f i) = f 0 + f 1 + f 2 + f 3 + f 4 + f 5 + f 6 + f 7"
  by (simp add: eval_nat_numeral)

lemma M_PI_less_pi: "M_PI < pi"
proof -
  have a: "(\<Sum>i<12. (- 1) ^ i * (1 / real (i * 2 + 1) * (1 / 7) ^ (i * 2 + 1))) \<le> arctan (1 / 7 :: real)"
    using arctan_partial_lower [of "1 / 7" 6] by simp
  have b: "(\<Sum>i<8. (- 1) ^ i * (1 / real (i * 2 + 1) * (3 / 79) ^ (i * 2 + 1))) \<le> arctan (3 / 79 :: real)"
    using arctan_partial_lower [of "3 / 79" 4] by simp
  have "pi = 20 * arctan (1 / 7) + 8 * arctan (3 / 79)"
    using machin_Euler by simp
  moreover have "M_PI < 20 * (\<Sum>i<12. (- 1) ^ i * (1 / real (i * 2 + 1) * (1 / 7) ^ (i * 2 + 1)))
                      + 8 * (\<Sum>i<8. (- 1) ^ i * (1 / real (i * 2 + 1) * (3 / 79) ^ (i * 2 + 1)))"
    unfolding sum_lessThan_12 sum_lessThan_8 M_PI_def by (simp add: power_divide)
  ultimately show ?thesis using a b by linarith
qed

text \<open>
  The odd partial sums are upper bounds; three terms of each series place \<open>\<pi>\<close> within
  two millionths of the literal, relatively.
\<close>

lemma arctan_partial_upper:
  fixes x :: real
  assumes x0: "0 \<le> x" and x1: "x \<le> 1"
  shows "arctan x \<le> (\<Sum>i<2 * n + 1. (- 1) ^ i * (1 / real (i * 2 + 1) * x ^ (i * 2 + 1)))"
proof -
  let ?a = "\<lambda>n. 1 / real (n * 2 + 1) * x ^ (n * 2 + 1)"
  have abs: "\<bar>x\<bar> \<le> 1" using x0 x1 by simp
  have zero: "?a \<longlonglongrightarrow> 0" by (rule zeroseq_arctan_series [OF abs])
  have pos: "\<And>n. 0 \<le> ?a n" using x0 by simp
  have mono: "\<And>n. ?a (Suc n) \<le> ?a n"
  proof -
    fix n
    have "x ^ (Suc n * 2 + 1) \<le> x ^ (n * 2 + 1)"
      using x0 x1 by (intro power_decreasing) simp_all
    moreover have "1 / real (Suc n * 2 + 1) \<le> 1 / real (n * 2 + 1)"
      by (intro divide_left_mono) simp_all
    moreover have "0 \<le> x ^ (Suc n * 2 + 1)" using x0 by simp
    ultimately show "?a (Suc n) \<le> ?a n"
      by (intro mult_mono) simp_all
  qed
  have "arctan x = (\<Sum>i. (- 1) ^ i * ?a i)" by (rule arctan_series [OF abs])
  also have "\<dots> \<le> (\<Sum>i<2 * n + 1. (- 1) ^ i * ?a i)"
    by (rule summable_Leibniz'(4) [OF zero pos mono])
  finally show ?thesis .
qed

lemma sum_lessThan_3:
  fixes f :: "nat \<Rightarrow> real"
  shows "(\<Sum>i<3. f i) = f 0 + f 1 + f 2"
  by (simp add: eval_nat_numeral)

lemma pi_less_M_PI_margin: "pi < M_PI * (1 + 2 / 10 ^ 6)"
proof -
  have a: "arctan (1 / 7 :: real)
             \<le> (\<Sum>i<3. (- 1) ^ i * (1 / real (i * 2 + 1) * (1 / 7) ^ (i * 2 + 1)))"
    using arctan_partial_upper [of "1 / 7" 1] by simp
  have b: "arctan (3 / 79 :: real)
             \<le> (\<Sum>i<3. (- 1) ^ i * (1 / real (i * 2 + 1) * (3 / 79) ^ (i * 2 + 1)))"
    using arctan_partial_upper [of "3 / 79" 1] by simp
  have "pi = 20 * arctan (1 / 7) + 8 * arctan (3 / 79)"
    using machin_Euler by simp
  moreover have "20 * (\<Sum>i<3. (- 1) ^ i * (1 / real (i * 2 + 1) * (1 / 7) ^ (i * 2 + 1)))
                   + 8 * (\<Sum>i<3. (- 1) ^ i * (1 / real (i * 2 + 1) * (3 / 79) ^ (i * 2 + 1)))
                 < M_PI * (1 + 2 / 10 ^ 6)"
    unfolding sum_lessThan_3 M_PI_def by (simp add: power_divide)
  ultimately show ?thesis using a b by linarith
qed


lemma cos_half_M_PI_pos: "0 < cos (M_PI / 2)"
proof -
  have "0 < M_PI / 2" by (simp add: M_PI_def)
  moreover have "M_PI / 2 < pi / 2" using M_PI_less_pi by simp
  ultimately show ?thesis by (intro cos_gt_zero_pi) (use pi_gt_zero in linarith)+
qed


section \<open>A body at the zenith, seen from the identity attitude\<close>

text \<open>
  With all three platform angles 0 the quaternion is \<open>(0, 0, 0, 1)\<close> and the rotation
  is the identity. The body vector at azimuth 0 and altitude 90 is
  \<open>(0, sin (M_PI/2), cos (M_PI/2))\<close>: its \<open>x\<close> component is exactly 0, and its
  \<open>z\<close> component is positive because \<^verbatim>\<open>M_PI\<close> lies below \<open>\<pi>\<close>.
\<close>

lemma identity_quat: "glm_euler_yxz_quat (0, 0, 0) = (0, 0, 0, 1)"
  by (simp add: glm_euler_yxz_quat_def)

lemma identity_mat3: "glm_quat_mat3 (0, 0, 0, 1) = [[1, 0, 0], [0, 1, 0], [0, 0, 1]]"
  by (simp add: glm_quat_mat3_def)

lemma upt_nine: "[0..<9] = [0, 1, 2, 3, 4, 5, 6, 7, 8 :: nat]"
  by code_simp

lemma identity_rotation: "create_rotation_matrix 0 0 0 = [1, 0, 0, 0, 1, 0, 0, 0, 1]"
  by (simp add: create_rotation_matrix_def DEG_TO_RAD_def identity_quat identity_mat3 upt_nine)

lemma zenith_vector:
  "horizontal_to_vector 0 90 = \<lparr>vec_x = 0, vec_y = sin (M_PI / 2), vec_z = cos (M_PI / 2)\<rparr>"
  by (simp add: horizontal_to_vector_def DEG_TO_RAD_def Let_def)


text \<open>
  Claim C1. For a celestial body at azimuth 0 and altitude 90 degrees and the identity
  platform attitude (azimuth, elevation and bank 0), \<^verbatim>\<open>celestial_to_navball_coords\<close>
  returns \<^verbatim>\<open>is_front == true\<close> and a screen position on the vertical centre line:
  \<open>screen_x\<close> equals \<open>navball_center_x\<close>, for every centre and radius.
\<close>

theorem zenith_identity_attitude:
  "fst (celestial_to_navball_coords 0 90 0 0 0 navball_center_x navball_center_y navball_radius)
     = True
   \<and> fst (snd (celestial_to_navball_coords 0 90 0 0 0
                   navball_center_x navball_center_y navball_radius))
     = navball_center_x"
  using cos_half_M_PI_pos
  by (simp add: celestial_to_navball_coords_def identity_rotation zenith_vector
        mat3_mul_vec3_def c_int_def Let_def)



section \<open>The lookup table depends on the size alone\<close>

text \<open>
  Claim C6. \<^verbatim>\<open>navball_lut_create\<close> is deterministic: whatever the allocator did, two
  calls with the same size that both succeed return tables whose validity flags and whose
  sphere points agree entry by entry. The routine reads nothing but its argument, and the
  entries start from the zeros that \<^verbatim>\<open>calloc\<close> provides.
\<close>

theorem lut_deterministic:
  "navball_lut_create malloc_result1 calloc_ok1 size_px = Some lut1 \<Longrightarrow>
   navball_lut_create malloc_result2 calloc_ok2 size_px = Some lut2 \<Longrightarrow>
   map valid (entries lut1) = map valid (entries lut2) \<and>
   map sphere_point (entries lut1) = map sphere_point (entries lut2)"
  by (auto simp: navball_lut_create_def Let_def split: if_splits option.splits)

lemma lut_create_success:
  "navball_lut_create (Some lut0) True n =
     Some \<lparr>entries =
             for_loop 0 (n - 1) (\<lambda>y.
               for_loop 0 (n - 1) (\<lambda>x. lut_fill_entry n (real_of_int n / 2) y x))
               (replicate (nat (n * n)) zero_entry),
           lut_size = n, total_pixels = n * n, lut_radius = real_of_int n / 2\<rparr>"
  by (simp add: navball_lut_create_def Let_def)

theorem lut_deterministic_witness:
  "navball_lut_create (Some stale_lut) True 300
     = Some (the (navball_lut_create (Some stale_lut) True 300))
   \<and> navball_lut_create (Some other_stale_lut) True 300
     = Some (the (navball_lut_create (Some other_stale_lut) True 300))
   \<and> map valid (entries (the (navball_lut_create (Some stale_lut) True 300)))
       = map valid (entries (the (navball_lut_create (Some other_stale_lut) True 300)))
   \<and> map sphere_point (entries (the (navball_lut_create (Some stale_lut) True 300)))
       = map sphere_point (entries (the (navball_lut_create (Some other_stale_lut) True 300)))"
proof -
  have s: "navball_lut_create (Some stale_lut) True 300
     = Some (the (navball_lut_create (Some stale_lut) True 300))"
    by (simp add: lut_create_success)
  have t: "navball_lut_create (Some other_stale_lut) True 300
     = Some (the (navball_lut_create (Some other_stale_lut) True 300))"
    by (simp add: lut_create_success)
  show ?thesis using lut_deterministic [OF s t] s t by simp
qed


section \<open>Valid table entries are unit vectors\<close>

lemma vec3_normalize_unit:
  assumes "0.0001 < vec3_length v"
  shows "vec3_length (vec3_normalize v) = 1"
proof -
  let ?l = "vec3_length v"
  have lpos: "0 < ?l" using assms by simp
  have dot_nonneg: "0 \<le> vec3_dot v v" by (simp add: vec3_dot_def)
  have sq: "?l * ?l = vec3_dot v v"
    using dot_nonneg by (simp add: vec3_length_def)
  have "vec3_dot (vec3_normalize v) (vec3_normalize v) = vec3_dot v v / (?l * ?l)"
    using assms by (simp add: vec3_normalize_def Let_def vec3_dot_def add_divide_distrib)
  also have "\<dots> = 1"
  proof -
    have "0 < ?l * ?l" using lpos by simp
    then show ?thesis using sq by simp
  qed
  finally show ?thesis by (simp add: vec3_length_def)
qed

lemma sphere_point_length:
  assumes "sx * sx + sy * sy \<le> r * r" "0 \<le> r"
  shows "vec3_length (vec3_new sx sy (sqrt (r * r - (sx * sx + sy * sy)))) = r"
proof -
  have "0 \<le> r * r - (sx * sx + sy * sy)" using assms(1) by simp
  then have "sqrt (r * r - (sx * sx + sy * sy)) * sqrt (r * r - (sx * sx + sy * sy))
             = r * r - (sx * sx + sy * sy)" by simp
  then have "vec3_dot (vec3_new sx sy (sqrt (r * r - (sx * sx + sy * sy))))
                      (vec3_new sx sy (sqrt (r * r - (sx * sx + sy * sy)))) = r * r"
    by (simp add: vec3_dot_def vec3_new_def)
  then show ?thesis using assms(2) by (simp add: vec3_length_def)
qed

lemma unit_entries_update:
  assumes "unit_entries es" "valid e \<longrightarrow> vec3_length (sphere_point e) = 1"
  shows "unit_entries (es[i := e])"
proof -
  have "set (es[i := e]) \<subseteq> insert e (set es)" by (rule set_update_subset_insert)
  then show ?thesis using assms unfolding unit_entries_def by blast
qed

lemma lut_fill_entry_unit:
  assumes "unit_entries es" "1 / 2 \<le> radius"
  shows "unit_entries (lut_fill_entry n radius y x es)"
proof -
  let ?sx = "real_of_int x - radius" and ?sy = "real_of_int y - radius"
  show ?thesis
  proof (cases "?sx * ?sx + ?sy * ?sy \<le> radius * radius")
    case True
    have "vec3_length (vec3_new ?sx ?sy (sqrt (radius * radius - (?sx * ?sx + ?sy * ?sy)))) = radius"
      using True assms(2) by (intro sphere_point_length) simp_all
    then have "vec3_length (vec3_normalize
                 (vec3_new ?sx ?sy (sqrt (radius * radius - (?sx * ?sx + ?sy * ?sy))))) = 1"
      using assms(2) by (intro vec3_normalize_unit) simp
    then show ?thesis
      using True assms(1) by (simp add: lut_fill_entry_def Let_def unit_entries_update)
  next
    case False
    then show ?thesis
      using assms(1) by (simp add: lut_fill_entry_def Let_def unit_entries_update)
  qed
qed


text \<open>
  Claim C7. For every size \<open>\<ge> 1\<close>, every entry of the table built by
  \<^verbatim>\<open>navball_lut_create\<close> whose validity flag is set stores a sphere point of Euclidean
  norm 1. In real arithmetic the norm is exactly 1; the tolerance of the claim covers the
  rounding of the float computation.
\<close>

theorem lut_valid_entries_unit:
  assumes "1 \<le> size_px"
    and "navball_lut_create malloc_result calloc_ok size_px = Some lut"
    and "e \<in> set (entries lut)" and "valid e"
  shows "vec3_length (sphere_point e) = 1"
proof -
  let ?r = "real_of_int size_px / 2"
  have r: "1 / 2 \<le> ?r" using assms(1) by simp
  have start: "unit_entries (replicate (nat (size_px * size_px)) zero_entry)"
    by (simp add: unit_entries_def zero_entry_def)
  have row: "\<And>y es. unit_entries es \<Longrightarrow>
      unit_entries (for_loop 0 (size_px - 1) (\<lambda>x. lut_fill_entry size_px ?r y x) es)"
    by (rule for_loop_preserves) (rule lut_fill_entry_unit [OF _ r])
  have "unit_entries (for_loop 0 (size_px - 1) (\<lambda>y.
          for_loop 0 (size_px - 1) (\<lambda>x. lut_fill_entry size_px ?r y x))
          (replicate (nat (size_px * size_px)) zero_entry))"
    by (rule for_loop_preserves) (erule row, rule start)
  moreover have "entries lut = for_loop 0 (size_px - 1) (\<lambda>y.
          for_loop 0 (size_px - 1) (\<lambda>x. lut_fill_entry size_px ?r y x))
          (replicate (nat (size_px * size_px)) zero_entry)"
    using assms(2)
    by (auto simp: navball_lut_create_def Let_def split: if_splits option.splits)
  ultimately show ?thesis using assms(3,4) by (simp add: unit_entries_def)
qed

lemma for_loop_0_1: "for_loop 0 1 body s = body 1 (body 0 s)"
  unfolding for_loop_def by (simp add: upto_rec1)

lemma lut_two: "entries (the (navball_lut_create (Some stale_lut) True 2)) =
   [\<lparr>sphere_point = vec3_new 0 0 0, valid = False\<rparr>,
    \<lparr>sphere_point = \<lparr>vec_x = 0, vec_y = - 1, vec_z = 0\<rparr>, valid = True\<rparr>,
    \<lparr>sphere_point = \<lparr>vec_x = - 1, vec_y = 0, vec_z = 0\<rparr>, valid = True\<rparr>,
    \<lparr>sphere_point = \<lparr>vec_x = 0, vec_y = 0, vec_z = 1\<rparr>, valid = True\<rparr>]"
  by (simp add: lut_create_success for_loop_0_1 lut_fill_entry_def Let_def zero_entry_def
        vec3_normalize_def vec3_length_def vec3_dot_def vec3_new_def eval_nat_numeral)

theorem lut_valid_entries_unit_witness:
  "(1::int) \<le> 2
   \<and> \<lparr>sphere_point = \<lparr>vec_x = 0, vec_y = 0, vec_z = 1\<rparr>, valid = True\<rparr>
       \<in> set (entries (the (navball_lut_create (Some stale_lut) True 2)))
   \<and> valid \<lparr>sphere_point = \<lparr>vec_x = 0, vec_y = 0, vec_z = 1\<rparr>, valid = True\<rparr>
   \<and> vec3_length (sphere_point
         \<lparr>sphere_point = \<lparr>vec_x = 0, vec_y = 0, vec_z = 1\<rparr>, valid = True\<rparr>) = 1"
proof -
  have s: "navball_lut_create (Some stale_lut) True 2 = Some (the (navball_lut_create (Some stale_lut) True 2))"
    by (simp add: lut_create_success)
  have m: "\<lparr>sphere_point = \<lparr>vec_x = 0, vec_y = 0, vec_z = 1\<rparr>, valid = True\<rparr>
       \<in> set (entries (the (navball_lut_create (Some stale_lut) True 2)))"
    by (simp add: lut_two)
  have v: "valid \<lparr>sphere_point = \<lparr>vec_x = 0, vec_y = 0, vec_z = 1\<rparr>, valid = True\<rparr>"
    by simp
  have one: "(1::int) \<le> 2" by simp
  show ?thesis using lut_valid_entries_unit [OF one s m v] m by simp
qed


section \<open>The equirectangular map\<close>

lemma atan2f_bounds: "- pi < atan2f y x \<and> atan2f y x \<le> pi"
proof -
  have b: "- (pi / 2) < arctan (y / x)" "arctan (y / x) < pi / 2"
    by (rule arctan_lbound, rule arctan_ubound)
  consider "0 < x" | "x < 0" "0 \<le> y" | "x < 0" "y < 0" | "x = 0"
    by linarith
  then show ?thesis
  proof cases
    case 1
    then show ?thesis using b pi_gt_zero by (simp add: atan2f_def)
  next
    case 2
    then have "y / x \<le> 0" by (simp add: divide_nonneg_neg)
    then have "arctan (y / x) \<le> 0" by (simp add: arctan_le_zero_iff)
    then show ?thesis using 2 b by (simp add: atan2f_def)
  next
    case 3
    then have "0 < y / x" by (simp add: divide_neg_neg)
    then have "0 < arctan (y / x)" by (simp add: zero_less_arctan_iff)
    then show ?thesis using 3 b by (simp add: atan2f_def)
  next
    case 4
    then show ?thesis
      by (auto simp: atan2f_def) (use pi_gt_zero in linarith)+
  qed
qed

lemma unit_normalize: "vec3_length p = 1 \<Longrightarrow> vec3_normalize p = p"
  by (simp add: vec3_normalize_def)

lemma unit_y_bounds:
  assumes "vec3_length p = 1"
  shows "- 1 \<le> vec_y p \<and> vec_y p \<le> 1"
proof -
  have nn: "0 \<le> vec3_dot p p" by (simp add: vec3_dot_def)
  have "sqrt (vec3_dot p p) = 1" using assms by (simp add: vec3_length_def)
  then have "vec3_dot p p = 1" using nn by simp
  then have "vec_y p * vec_y p \<le> 1"
    unfolding vec3_dot_def
    using zero_le_square [of "vec_x p"] zero_le_square [of "vec_z p"] by linarith
  then have "(vec_y p)\<^sup>2 \<le> 1\<^sup>2" by (simp add: power2_eq_square)
  then have "\<bar>vec_y p\<bar> \<le> \<bar>1\<bar>" by (simp only: abs_le_square_iff)
  then show ?thesis by simp linarith
qed

lemma half_turn_margin: "pi / (2 * M_PI) \<le> 1 / 2 + 1 / 10 ^ 6"
proof -
  have "pi \<le> (1 / 2 + 1 / 10 ^ 6) * (2 * M_PI)"
    using pi_less_M_PI_margin by (simp add: algebra_simps)
  then show ?thesis
    using M_PI_pos by (simp add: pos_divide_le_eq)
qed


text \<open>
  Claim C8, as stated, fails at the pole \<open>(0, 1, 0)\<close>: there \<^verbatim>\<open>asinf\<close> returns
  \<open>\<pi>/2\<close> and \<open>v = (\<pi>/2)/M_PI + 0.5\<close> is not below 1. \<^verbatim>\<open>sphere_to_uv\<close> does not
  wrap its result.
\<close>

theorem sphere_to_uv_pole_counterexample:
  "\<not> uv_v (sphere_to_uv \<lparr>vec_x = 0, vec_y = 1, vec_z = 0\<rparr>) < 1"
proof -
  have len: "vec3_length \<lparr>vec_x = 0, vec_y = 1, vec_z = 0\<rparr> = 1"
    by (simp add: vec3_length_def vec3_dot_def)
  have "uv_v (sphere_to_uv \<lparr>vec_x = 0, vec_y = 1, vec_z = 0\<rparr>) = pi / 2 / M_PI + 0.5"
    by (simp add: sphere_to_uv_def unit_normalize [OF len] Let_def)
  moreover have "1 / 2 \<le> pi / 2 / M_PI"
    using M_PI_less_pi M_PI_pos by (simp add: field_simps)
  ultimately show ?thesis by simp
qed


text \<open>
  Claim C8, amended. For every point of the unit sphere \<^verbatim>\<open>sphere_to_uv\<close> returns
  \<open>u = atan2 (x, z) / (2 M_PI) + 0.5\<close> and \<open>v = asin (y) / M_PI + 0.5\<close>, and both lie in
  the closed interval \<open>[0, 1]\<close> widened by a millionth at either end. The range is not
  half-open, since the value 1 is reached, and it is not exactly \<open>[0, 1]\<close> either: the
  quotient of a half turn by \<^verbatim>\<open>M_PI\<close> is not exactly one half, so \<open>v\<close> is slightly
  negative at the pole \<open>(0, -1, 0)\<close>. The margin of a millionth also covers the rounding
  of \<^verbatim>\<open>asinf\<close>, \<^verbatim>\<open>atan2f\<close> and the division in single precision, where \<open>v\<close> at that
  pole is about \<open>-1.4e-8\<close>. \<^verbatim>\<open>sphere_to_uv\<close> does not wrap its result.
\<close>

theorem sphere_to_uv_unit:
  assumes "vec3_length p = 1"
  shows "uv_u (sphere_to_uv p) = atan2f (vec_x p) (vec_z p) / (2 * M_PI) + 0.5
       \<and> uv_v (sphere_to_uv p) = arcsin (vec_y p) / M_PI + 0.5
       \<and> - (1 / 10 ^ 6) \<le> uv_u (sphere_to_uv p) \<and> uv_u (sphere_to_uv p) \<le> 1 + 1 / 10 ^ 6
       \<and> - (1 / 10 ^ 6) \<le> uv_v (sphere_to_uv p) \<and> uv_v (sphere_to_uv p) \<le> 1 + 1 / 10 ^ 6"
proof -
  have u: "uv_u (sphere_to_uv p) = atan2f (vec_x p) (vec_z p) / (2 * M_PI) + 0.5"
    and v: "uv_v (sphere_to_uv p) = arcsin (vec_y p) / M_PI + 0.5"
    by (simp_all add: sphere_to_uv_def unit_normalize [OF assms] Let_def)
  have "\<bar>atan2f (vec_x p) (vec_z p)\<bar> \<le> pi"
    using atan2f_bounds [of "vec_x p" "vec_z p"] by linarith
  then have "\<bar>atan2f (vec_x p) (vec_z p)\<bar> / (2 * M_PI) \<le> pi / (2 * M_PI)"
    using M_PI_pos by (intro divide_right_mono) simp_all
  then have "\<bar>atan2f (vec_x p) (vec_z p) / (2 * M_PI)\<bar> \<le> pi / (2 * M_PI)"
    using M_PI_pos by simp
  then have ub: "\<bar>atan2f (vec_x p) (vec_z p) / (2 * M_PI)\<bar> \<le> 1 / 2 + 1 / 10 ^ 6"
    using half_turn_margin by linarith
  have "\<bar>arcsin (vec_y p)\<bar> \<le> pi / 2"
    using arcsin_bounded [of "vec_y p"] unit_y_bounds [OF assms] by linarith
  then have "\<bar>arcsin (vec_y p)\<bar> / M_PI \<le> pi / 2 / M_PI"
    using M_PI_pos by (intro divide_right_mono) simp_all
  then have "\<bar>arcsin (vec_y p) / M_PI\<bar> \<le> pi / (2 * M_PI)"
    using M_PI_pos by simp
  then have vb: "\<bar>arcsin (vec_y p) / M_PI\<bar> \<le> 1 / 2 + 1 / 10 ^ 6"
    using half_turn_margin by linarith
  have ur: "- (1 / 10 ^ 6) \<le> uv_u (sphere_to_uv p) \<and> uv_u (sphere_to_uv p) \<le> 1 + 1 / 10 ^ 6"
    unfolding u using ub by linarith
  have vr: "- (1 / 10 ^ 6) \<le> uv_v (sphere_to_uv p) \<and> uv_v (sphere_to_uv p) \<le> 1 + 1 / 10 ^ 6"
    unfolding v using vb by linarith
  show ?thesis using u v ur vr by blast
qed

theorem sphere_to_uv_unit_witness:
  "vec3_length \<lparr>vec_x = 0, vec_y = - 1, vec_z = 0\<rparr> = 1
   \<and> uv_u (sphere_to_uv \<lparr>vec_x = 0, vec_y = - 1, vec_z = 0\<rparr>) = 0.5
   \<and> uv_v (sphere_to_uv \<lparr>vec_x = 0, vec_y = - 1, vec_z = 0\<rparr>) < 0
   \<and> - (1 / 10 ^ 6) \<le> uv_v (sphere_to_uv \<lparr>vec_x = 0, vec_y = - 1, vec_z = 0\<rparr>)"
proof -
  let ?p = "\<lparr>vec_x = 0, vec_y = - 1, vec_z = 0\<rparr>"
  have len: "vec3_length ?p = 1"
    by (simp add: vec3_length_def vec3_dot_def)
  have all: "uv_u (sphere_to_uv ?p) = atan2f (vec_x ?p) (vec_z ?p) / (2 * M_PI) + 0.5
       \<and> uv_v (sphere_to_uv ?p) = arcsin (vec_y ?p) / M_PI + 0.5
       \<and> - (1 / 10 ^ 6) \<le> uv_u (sphere_to_uv ?p) \<and> uv_u (sphere_to_uv ?p) \<le> 1 + 1 / 10 ^ 6
       \<and> - (1 / 10 ^ 6) \<le> uv_v (sphere_to_uv ?p) \<and> uv_v (sphere_to_uv ?p) \<le> 1 + 1 / 10 ^ 6"
    by (rule sphere_to_uv_unit [OF len])
  have u: "uv_u (sphere_to_uv ?p) = 0.5"
    using all by (simp add: atan2f_def)
  have "uv_v (sphere_to_uv ?p) = 1 / 2 - pi / 2 / M_PI"
    using all by (simp add: arcsin_minus)
  moreover have "1 / 2 < pi / 2 / M_PI"
    using M_PI_less_pi M_PI_pos by (simp add: field_simps)
  ultimately have v: "uv_v (sphere_to_uv ?p) < 0" by linarith
  show ?thesis using len u v all by blast
qed


section \<open>The guard of the sphere renderer\<close>

text \<open>
  Claim C10. If the context pointer is null, or the navball widget is disabled, or its
  texture pointer or its table pointer is null, then \<^verbatim>\<open>navball_render\<close> returns false
  and the pixel array is the one it was given: no pixel is written.
\<close>

theorem navball_render_guard:
  "ctx_ptr = None \<or> (\<exists>ctx. ctx_ptr = Some ctx \<and>
       (\<not> navball_enabled ctx \<or> navball_texture ctx = None \<or> navball_lut ctx = None)) \<Longrightarrow>
   navball_render sv ctx_ptr pb_state buffer = (False, buffer)"
  by (auto simp: navball_render_def)

theorem navball_render_guard_witness:
  "navball_render idle_navball_services None zero_state [1, 2, 3, 4] = (False, [1, 2, 3, 4])
   \<and> \<not> navball_enabled disabled_navball_context
   \<and> navball_render idle_navball_services (Some disabled_navball_context) zero_state
         [1, 2, 3, 4] = (False, [1, 2, 3, 4])"
  using navball_render_guard [of None idle_navball_services zero_state "[1, 2, 3, 4]"]
    navball_render_guard [of "Some disabled_navball_context" idle_navball_services zero_state
      "[1, 2, 3, 4]"]
  by (simp add: disabled_navball_context_def)


section \<open>What the render entry point returns\<close>

text \<open>
  The line loop ends. With \<open>a\<close> and \<open>b\<close> the remaining distances to the end point
  along the two axes, the error term is \<open>dx - dy + a dy - b dx\<close>; this keeps a step from
  being taken along an axis whose distance is already 0, and some step is always taken.
\<close>

lemma draw_line_loop_returns:
  assumes "line_inv p x0 y0 err a b"
  shows "\<exists>fb'. draw_line_loop p x0 y0 err fb = Some fb'"
  using assms
proof (induction "nat (a + b)" arbitrary: x0 y0 err a b fb rule: less_induct)
  case less
  let ?dx = "lp_dx p" and ?dy = "lp_dy p" and ?sx = "lp_sx p" and ?sy = "lp_sy p"
  let ?fb = "draw_line_stamp p x0 y0 fb"
  have inv: "0 \<le> a" "a \<le> ?dx" "0 \<le> b" "b \<le> ?dy"
    "lp_x1 p - x0 = ?sx * a" "lp_y1 p - y0 = ?sy * b"
    "?sx = 1 \<or> ?sx = - 1" "?sy = 1 \<or> ?sy = - 1"
    "err = ?dx - ?dy + a * ?dy - b * ?dx"
    using less.prems by (simp_all add: line_inv_def)
  have xa: "x0 = lp_x1 p \<longleftrightarrow> a = 0" using inv(5,7) by auto
  have yb: "y0 = lp_y1 p \<longleftrightarrow> b = 0" using inv(6,8) by auto
  show ?case
  proof (cases "x0 = lp_x1 p \<and> y0 = lp_y1 p")
    case True
    then show ?thesis by (subst draw_line_loop.simps) simp
  next
    case False
    then have ab: "a \<noteq> 0 \<or> b \<noteq> 0" using xa yb by simp
    let ?X = "- ?dy < 2 * err" and ?Y = "2 * err < ?dx"
    have X_a: "1 \<le> a" if "?X"
    proof (rule ccontr)
      assume "\<not> 1 \<le> a"
      then have a0: "a = 0" using inv(1) by simp
      then have "1 \<le> b" using ab inv(3) by simp
      then have "0 \<le> ?dx * (b - 1)" using inv(1,2) by simp
      then have "?dx \<le> b * ?dx" by (simp add: algebra_simps)
      then have "err \<le> - ?dy" using inv(9) a0 by simp
      then show False using that inv(3,4) by linarith
    qed
    have Y_b: "1 \<le> b" if "?Y"
    proof (rule ccontr)
      assume "\<not> 1 \<le> b"
      then have b0: "b = 0" using inv(3) by simp
      then have "1 \<le> a" using ab inv(1) by simp
      then have "0 \<le> ?dy * (a - 1)" using inv(3,4) by simp
      then have "?dy \<le> a * ?dy" by (simp add: algebra_simps)
      then have "?dx \<le> err" using inv(9) b0 by simp
      then show False using that inv(1,2) by linarith
    qed
    have XY: "?X \<or> ?Y"
    proof (rule ccontr)
      assume "\<not> (?X \<or> ?Y)"
      then have "?dx + ?dy \<le> 0" by linarith
      then have "a = 0" "b = 0" using inv(1-4) by linarith+
      then show False using ab by simp
    qed
    let ?a' = "if ?X then a - 1 else a" and ?b' = "if ?Y then b - 1 else b"
    let ?err1 = "if ?X then err - ?dy else err"
    let ?x0' = "if ?X then x0 + ?sx else x0"
    let ?err2 = "if ?Y then ?err1 + ?dx else ?err1"
    let ?y0' = "if ?Y then y0 + ?sy else y0"
    have inv': "line_inv p ?x0' ?y0' ?err2 ?a' ?b'"
      unfolding line_inv_def
      using inv X_a Y_b by (auto simp: algebra_simps)
    have dec: "nat (?a' + ?b') < nat (a + b)"
      using XY X_a Y_b inv(1,3) by auto
    obtain fb' where "draw_line_loop p ?x0' ?y0' ?err2 ?fb = Some fb'"
      using less.hyps [OF dec inv'] by blast
    then show ?thesis
      using False by (subst draw_line_loop.simps) (simp add: Let_def)
  qed
qed

lemma draw_line_returns: "\<exists>fb'. draw_line fb x0 y0 x1 y1 color thickness = Some fb'"
proof -
  let ?p = "\<lparr>lp_x1 = x1, lp_y1 = y1, lp_dx = \<bar>x1 - x0\<bar>, lp_dy = \<bar>y1 - y0\<bar>,
             lp_sx = (if x0 < x1 then 1 else - 1), lp_sy = (if y0 < y1 then 1 else - 1),
             lp_half_thick = c_int (thickness / 2), lp_color = color\<rparr>"
  have "line_inv ?p x0 y0 (\<bar>x1 - x0\<bar> - \<bar>y1 - y0\<bar>) \<bar>x1 - x0\<bar> \<bar>y1 - y0\<bar>"
    by (simp add: line_inv_def)
  then show ?thesis
    unfolding draw_line_def Let_def by (rule draw_line_loop_returns)
qed
















end
